theory Spec2Isabelle
  imports Complex_Main
begin

section \<open>Values, exceptions and built-ins of the notebooks' Python\<close>

text \<open>
  The three notebooks (\<^verbatim>\<open>dataframe.ipynb\<close>, \<^verbatim>\<open>dag.ipynb\<close> and a third, unnamed
  one) are Python. An exception is a value of \<open>exn\<close> (the exceptions meant are those
  that derive from Python's \<^verbatim>\<open>Exception\<close>: the built-in ones named here and, under
  \<open>Raised\<close>, any other by its class name); a computation that may raise returns
  \<open>exn + 'a\<close>, with \<open>Inl\<close> for the exception.
\<close>

datatype exn = IndexError | ValueError | OverflowError | TypeError | Raised string

text \<open>
  The subscript \<^verbatim>\<open>xs[i]\<close> of a list: indices from \<open>- len\<close> up to \<open>len - 1\<close> are in
  range (the negative ones count back from the end), every other index raises.
\<close>

definition getitem :: "'a list \<Rightarrow> int \<Rightarrow> exn + 'a" where
  "getitem xs i =
     (if 0 \<le> i \<and> i < int (length xs) then Inr (xs ! nat i)
      else if - int (length xs) \<le> i \<and> i < 0 then Inr (xs ! nat (int (length xs) + i))
      else Inl IndexError)"

text \<open>
  Python's \<^verbatim>\<open>range(start, stop, step)\<close>: a zero step raises \<^verbatim>\<open>ValueError\<close>; the
  length is the one CPython computes.
\<close>

definition range_len :: "int \<Rightarrow> int \<Rightarrow> int \<Rightarrow> nat" where
  "range_len start stop step =
     (if 0 < step \<and> start < stop then nat ((stop - start - 1) div step + 1)
      else if step < 0 \<and> stop < start then nat ((start - stop - 1) div (- step) + 1)
      else 0)"

definition py_range :: "int \<Rightarrow> int \<Rightarrow> int \<Rightarrow> exn + int list" where
  "py_range start stop step =
     (if step = 0 then Inl ValueError
      else Inr (map (\<lambda>i. start + int i * step) [0..<range_len start stop step]))"

section \<open>Numbers\<close>

text \<open>
  A Python number is an \<^verbatim>\<open>int\<close>, of any size, or a \<^verbatim>\<open>float\<close>. The floats and what
  Python's built-ins do with them are a parameter of the model, so that nothing proved
  depends on how floats round, overflow or treat \<^verbatim>\<open>nan\<close>:
  \<^item> \<open>float_of_int n\<close> converts an \<^verbatim>\<open>int\<close> operand to a float, as \<^verbatim>\<open>n / 1024.0\<close> does
    first; it raises (\<^verbatim>\<open>OverflowError\<close>) when the integer is too large;
  \<^item> \<open>float_gt_1024 x\<close> is the comparison \<^verbatim>\<open>x > 1024\<close> of a float;
  \<^item> \<open>float_div_1024 x\<close> is the division \<^verbatim>\<open>x / 1024.0\<close> of a float, which does not
    raise;
  \<^item> \<open>format_f precision x\<close> is the conversion \<^verbatim>\<open>"%.*f" % (precision, x)\<close>, which
    raises on a precision that is not an \<^verbatim>\<open>int\<close> or does not fit a C \<^verbatim>\<open>int\<close>, and on
    an \<^verbatim>\<open>int\<close> too large for a float.
\<close>

datatype 'f number = IntN int | FloatN 'f

record 'f floats =
  float_of_int :: "int \<Rightarrow> exn + 'f"
  float_gt_1024 :: "'f \<Rightarrow> bool"
  float_div_1024 :: "'f \<Rightarrow> 'f"
  format_f :: "'f number \<Rightarrow> 'f number \<Rightarrow> exn + string"

text \<open>\<^verbatim>\<open>size > 1024\<close>: exact on an \<^verbatim>\<open>int\<close>, the floats' own on a float.\<close>

definition num_gt_1024 :: "'f floats \<Rightarrow> 'f number \<Rightarrow> bool" where
  "num_gt_1024 F sz = (case sz of IntN n \<Rightarrow> 1024 < n | FloatN x \<Rightarrow> float_gt_1024 F x)"

text \<open>\<^verbatim>\<open>size / 1024.0\<close>: the result is a float; an \<^verbatim>\<open>int\<close> is converted first.\<close>

definition num_div_1024 :: "'f floats \<Rightarrow> 'f number \<Rightarrow> exn + 'f" where
  "num_div_1024 F sz =
     (case sz of
        IntN n \<Rightarrow> (case float_of_int F n of Inl e \<Rightarrow> Inl e | Inr x \<Rightarrow> Inr (float_div_1024 F x))
      | FloatN x \<Rightarrow> Inr (float_div_1024 F x))"

section \<open>The size formatter of \<^verbatim>\<open>dataframe.ipynb\<close>\<close>

text \<open>
  \<^verbatim>\<open>
  def human_readable_size(size,precision=2):
      suffixes=['B','KB','MB','GB','TB']
      suffixIndex = 0
      while size > 1024 and suffixIndex < 4:
          suffixIndex += 1
          size = size/1024.0
      return "%.*f%s"%(precision,size,suffixes[suffixIndex])
  \<close>
  The parameter \<^verbatim>\<open>size\<close> is written \<open>sz\<close>. \<open>hrs_loop\<close> is the \<^verbatim>\<open>while\<close> loop: it
  returns the exception that ended it, if any, and the values of \<^verbatim>\<open>size\<close> and
  \<^verbatim>\<open>suffixIndex\<close> when it ended (the division raises after \<^verbatim>\<open>suffixIndex\<close> was
  incremented).
\<close>

definition suffixes :: "string list" where
  "suffixes = [''B'', ''KB'', ''MB'', ''GB'', ''TB'']"

function hrs_loop :: "'f floats \<Rightarrow> 'f number \<Rightarrow> int \<Rightarrow> exn option \<times> 'f number \<times> int" where
  "hrs_loop F sz suffixIndex =
     (if num_gt_1024 F sz \<and> suffixIndex < 4 then
        (case num_div_1024 F sz of
           Inl e \<Rightarrow> (Some e, sz, suffixIndex + 1)
         | Inr x \<Rightarrow> hrs_loop F (FloatN x) (suffixIndex + 1))
      else (None, sz, suffixIndex))"
  by pat_completeness auto
termination
  by (relation "measure (\<lambda>(F, sz, suffixIndex). nat (4 - suffixIndex))") auto

declare hrs_loop.simps [simp del]

text \<open>
  The \<^verbatim>\<open>return\<close> statement evaluates the subscript \<^verbatim>\<open>suffixes[suffixIndex]\<close>, then
  formats; \<^verbatim>\<open>%s\<close> of a string is the string.
\<close>

definition human_readable_size :: "'f floats \<Rightarrow> 'f number \<Rightarrow> 'f number \<Rightarrow> exn + string" where
  "human_readable_size F sz precision =
     (case hrs_loop F sz 0 of
        (Some e, sz', suffixIndex) \<Rightarrow> Inl e
      | (None, sz', suffixIndex) \<Rightarrow>
          (case getitem suffixes suffixIndex of
             Inl e \<Rightarrow> Inl e
           | Inr suffix \<Rightarrow>
               (case format_f F precision sz' of
                  Inl e \<Rightarrow> Inl e
                | Inr s \<Rightarrow> Inr (s @ suffix))))"

text \<open>The call with one argument takes the default \<^verbatim>\<open>precision=2\<close>.\<close>

definition human_readable_size_default :: "'f floats \<Rightarrow> 'f number \<Rightarrow> exn + string" where
  "human_readable_size_default F sz = human_readable_size F sz (IntN 2)"

text \<open>
  What the \<^verbatim>\<open>return\<close> statement yields for a magnitude \<open>m\<close> and a suffix once the
  subscript has succeeded: the formatting's exception, or the formatted magnitude
  followed by the suffix.
\<close>

definition formatted :: "'f floats \<Rightarrow> 'f number \<Rightarrow> 'f number \<Rightarrow> string \<Rightarrow> exn + string" where
  "formatted F precision m suffix =
     (case format_f F precision m of Inl e \<Rightarrow> Inl e | Inr s \<Rightarrow> Inr (s @ suffix))"

subsection \<open>Numbers to run the formatter on\<close>

text \<open>
  A stand-in for Python's floats, for evaluating the formatter: a float is any real
  (arithmetic is exact, nothing rounds) or \<^verbatim>\<open>nan\<close>; infinities are left out. As in
  CPython an \<^verbatim>\<open>int\<close> converts unless it would round to \<open>2 ^ 1024\<close>, the precision of
  \<^verbatim>\<open>%.*f\<close> must be an \<^verbatim>\<open>int\<close> that fits 32 bits, a negative precision counts as 0, and
  decimals are rounded half to even.
\<close>

datatype pyfloat = Finite real | NaN

definition exact_of_int :: "int \<Rightarrow> exn + pyfloat" where
  "exact_of_int n =
     (if \<bar>n\<bar> < 2 ^ 1024 - 2 ^ 970 then Inr (Finite (of_int n)) else Inl OverflowError)"

definition round_half_even :: "real \<Rightarrow> int" where
  "round_half_even y =
     (if y - of_int \<lfloor>y\<rfloor> < 1 / 2 then \<lfloor>y\<rfloor>
      else if 1 / 2 < y - of_int \<lfloor>y\<rfloor> then \<lfloor>y\<rfloor> + 1
      else if even \<lfloor>y\<rfloor> then \<lfloor>y\<rfloor> else \<lfloor>y\<rfloor> + 1)"

function digits :: "nat \<Rightarrow> string" where
  "digits n =
     (if n < 10 then [''0123456789'' ! n]
      else digits (n div 10) @ [''0123456789'' ! (n mod 10)])"
  by pat_completeness auto
termination
  by (relation "measure id") auto

declare digits.simps [simp del]

definition fixed_point :: "nat \<Rightarrow> real \<Rightarrow> string" where
  "fixed_point p x =
     (let scaled = nat (round_half_even (\<bar>x\<bar> * 10 ^ p));
          fraction = digits (scaled mod 10 ^ p)
      in (if x < 0 then ''-'' else []) @ digits (scaled div 10 ^ p) @
         (if p = 0 then [] else ''.'' @ replicate (p - length fraction) (CHR ''0'') @ fraction))"

definition exact_format_float :: "int \<Rightarrow> pyfloat \<Rightarrow> string" where
  "exact_format_float p v = (case v of NaN \<Rightarrow> ''nan'' | Finite x \<Rightarrow> fixed_point (nat p) x)"

definition exact_format :: "pyfloat number \<Rightarrow> pyfloat number \<Rightarrow> exn + string" where
  "exact_format precision sz =
     (case precision of
        FloatN _ \<Rightarrow> Inl TypeError
      | IntN p \<Rightarrow>
          if p < - (2 ^ 31) \<or> 2 ^ 31 \<le> p then Inl OverflowError
          else (case sz of
                  IntN n \<Rightarrow>
                    (case exact_of_int n of
                       Inl e \<Rightarrow> Inl e
                     | Inr v \<Rightarrow> Inr (exact_format_float p v))
                | FloatN v \<Rightarrow> Inr (exact_format_float p v)))"

definition exact_floats :: "pyfloat floats" where
  "exact_floats =
     \<lparr> float_of_int = exact_of_int,
       float_gt_1024 = (\<lambda>v. case v of NaN \<Rightarrow> False | Finite x \<Rightarrow> 1024 < x),
       float_div_1024 = (\<lambda>v. case v of NaN \<Rightarrow> NaN | Finite x \<Rightarrow> Finite (x / 1024)),
       format_f = exact_format \<rparr>"

section \<open>Library calls\<close>

text \<open>
  Everything else the notebooks do is a call into dask, pandas, scikit-learn or the
  \<^verbatim>\<open>time\<close> module. A library call acts on the state of the world \<open>'w\<close> (the cluster,
  the clock, the warning filters) and either raises or returns a value and the new world.
\<close>

type_synonym ('a, 'w) py = "'w \<Rightarrow> exn + 'a \<times> 'w"

definition py_return :: "'a \<Rightarrow> ('a, 'w) py" where
  "py_return a w = Inr (a, w)"

definition py_bind :: "('a, 'w) py \<Rightarrow> ('a \<Rightarrow> ('b, 'w) py) \<Rightarrow> ('b, 'w) py" where
  "py_bind m f w = (case m w of Inl x \<Rightarrow> Inl x | Inr (a, w') \<Rightarrow> f a w')"

text \<open>
  \<open>call_raises m w x later\<close>: run from the world \<open>w\<close>, the call \<open>m\<close> raises \<open>x\<close>, or it
  returns and \<open>later\<close> holds of its result and the world it leaves. Nested, it says
  which call of a sequence is the first to raise.
\<close>

definition call_raises :: "('a, 'w) py \<Rightarrow> 'w \<Rightarrow> exn \<Rightarrow> ('a \<Rightarrow> 'w \<Rightarrow> bool) \<Rightarrow> bool" where
  "call_raises m w x later = (case m w of Inl y \<Rightarrow> y = x | Inr (a, w') \<Rightarrow> later a w')"

text \<open>What a Python function returns: \<^verbatim>\<open>None\<close> (no \<^verbatim>\<open>return\<close> reached) or an object.\<close>

datatype 'a pyval = PyNone | PyObj 'a

text \<open>
  The library is a parameter of the model, one field per call expression of the
  notebooks: \<open>'df\<close> is a pandas dataframe, \<open>'ddf\<close> a lazy dask dataframe, \<open>'part\<close> the
  rows of one group, \<open>'est\<close> a regression estimator.
  \<^item> \<open>df_len d\<close> is \<^verbatim>\<open>len(df)\<close>;
  \<^item> \<open>time_time\<close> is \<^verbatim>\<open>time.time()\<close>;
  \<^item> \<open>ddf_head d count\<close> is \<^verbatim>\<open>ddf.head(count, compute=False)\<close>, \<open>df_head d count\<close> is
    \<^verbatim>\<open>df.head(count)\<close>;
  \<^item> \<open>ddf_x_sum_compute c\<close> is \<^verbatim>\<open>ddf_chunk.x.sum().compute()\<close>, \<open>df_x_sum c\<close> is
    \<^verbatim>\<open>df_chunk.x.sum()\<close>;
  \<^item> \<open>LinearRegression\<close> is the constructor call, \<open>est_fit est part\<close> is
    \<^verbatim>\<open>est.fit(partition[['x']].values, partition.y.values)\<close> and returns the estimator as
    the call leaves it;
  \<^item> \<open>ddf_groupby_apply_compute f c\<close> is
    \<^verbatim>\<open>ddf_chunk.groupby('name').apply(f, meta=object).compute()\<close> and \<open>df_groupby_apply f c\<close>
    is \<^verbatim>\<open>df_chunk.groupby('name').apply(f)\<close>;
  \<^item> \<open>warnings_simplefilter\<close> is
    \<^verbatim>\<open>warnings.simplefilter(action='ignore', category=FutureWarning)\<close>.
\<close>

record ('w, 'df, 'ddf, 'part, 'est) library =
  df_len :: "'df \<Rightarrow> (int, 'w) py"
  time_time :: "(real, 'w) py"
  ddf_head :: "'ddf \<Rightarrow> int \<Rightarrow> ('ddf, 'w) py"
  df_head :: "'df \<Rightarrow> int \<Rightarrow> ('df, 'w) py"
  ddf_x_sum_compute :: "'ddf \<Rightarrow> (real, 'w) py"
  df_x_sum :: "'df \<Rightarrow> (real, 'w) py"
  LinearRegression :: "('est, 'w) py"
  est_fit :: "'est \<Rightarrow> 'part \<Rightarrow> ('est, 'w) py"
  ddf_groupby_apply_compute :: "('part \<Rightarrow> ('est pyval, 'w) py) \<Rightarrow> 'ddf \<Rightarrow> (unit, 'w) py"
  df_groupby_apply :: "('part \<Rightarrow> ('est pyval, 'w) py) \<Rightarrow> 'df \<Rightarrow> (unit, 'w) py"
  warnings_simplefilter :: "(unit, 'w) py"

text \<open>
  The module-level variables of \<^verbatim>\<open>dataframe.ipynb\<close> that its functions read:
  \<^verbatim>\<open>ddf = dask.datasets.timeseries()\<close>, \<^verbatim>\<open>df = ddf.compute()\<close> and
  \<^verbatim>\<open>CHUNK_SIZE = 100000\<close>.
\<close>

record ('df, 'ddf) globals =
  df :: 'df
  ddf :: 'ddf
  CHUNK_SIZE :: int

text \<open>A \<^verbatim>\<open>for\<close> loop over a list: the body runs for each element in order, on the loop's variables.\<close>

fun for_loop :: "('a \<Rightarrow> 's \<Rightarrow> ('s, 'w) py) \<Rightarrow> 'a list \<Rightarrow> 's \<Rightarrow> ('s, 'w) py" where
  "for_loop body [] s = py_return s"
| "for_loop body (x # xs) s = py_bind (body x s) (for_loop body xs)"

section \<open>The per-group training function\<close>

text \<open>
  \<^verbatim>\<open>dataframe.ipynb\<close>:
  \<^verbatim>\<open>
  def train(partition):
      est = LinearRegression()
      est.fit(partition[['x']].values, partition.y.values)
  \<close>
  The third notebook:
  \<^verbatim>\<open>
  def train(partition):
      est = LinearRegression()
      est.fit(partition[['x']].values, partition.y.values)
      return est
  \<close>
  The parameter \<^verbatim>\<open>partition\<close> is written \<open>part\<close>.
\<close>

definition train :: "('w, 'df, 'ddf, 'part, 'est) library \<Rightarrow> 'part \<Rightarrow> ('est pyval, 'w) py" where
  "train L part =
     py_bind (LinearRegression L) (\<lambda>est.
     py_bind (est_fit L est part) (\<lambda>est.
     py_return PyNone))"

definition train_part_000 :: "('w, 'df, 'ddf, 'part, 'est) library \<Rightarrow> 'part \<Rightarrow> ('est pyval, 'w) py" where
  "train_part_000 L part =
     py_bind (LinearRegression L) (\<lambda>est.
     py_bind (est_fit L est part) (\<lambda>est.
     py_return (PyObj est)))"

section \<open>The benchmark functions of \<^verbatim>\<open>dataframe.ipynb\<close>\<close>

text \<open>
  \<^verbatim>\<open>
  def measure_sum_speed():
      len_df = len(df)
      dask_speed = []
      pandas_speed = []
      for count in range(CHUNK_SIZE, len_df, CHUNK_SIZE):
          ddf_chunk = ddf.head(count, compute=False)
          df_chunk = df.head(count)
          start_time = time.time()
          ddf_chunk.x.sum().compute()
          dask_speed.append((time.time() - start_time))
          start_time = time.time()
          df_chunk.x.sum()
          pandas_speed.append((time.time() - start_time))
      return dask_speed, pandas_speed
  \<close>
  The loop's variables are the two lists.
\<close>

definition sum_iteration ::
  "('w, 'df, 'ddf, 'part, 'est) library \<Rightarrow> ('df, 'ddf) globals \<Rightarrow> int \<Rightarrow>
   real list \<times> real list \<Rightarrow> (real list \<times> real list, 'w) py" where
  "sum_iteration L g count speeds =
     (case speeds of (dask_speed, pandas_speed) \<Rightarrow>
        py_bind (ddf_head L (ddf g) count) (\<lambda>ddf_chunk.
        py_bind (df_head L (df g) count) (\<lambda>df_chunk.
        py_bind (time_time L) (\<lambda>start_time.
        py_bind (ddf_x_sum_compute L ddf_chunk) (\<lambda>_.
        py_bind (time_time L) (\<lambda>now.
        let dask_speed = dask_speed @ [now - start_time] in
        py_bind (time_time L) (\<lambda>start_time.
        py_bind (df_x_sum L df_chunk) (\<lambda>_.
        py_bind (time_time L) (\<lambda>now.
        let pandas_speed = pandas_speed @ [now - start_time] in
        py_return (dask_speed, pandas_speed))))))))))"

definition measure_sum_speed ::
  "('w, 'df, 'ddf, 'part, 'est) library \<Rightarrow> ('df, 'ddf) globals \<Rightarrow>
   (real list \<times> real list, 'w) py" where
  "measure_sum_speed L g =
     py_bind (df_len L (df g)) (\<lambda>len_df w.
       case py_range (CHUNK_SIZE g) len_df (CHUNK_SIZE g) of
         Inl x \<Rightarrow> Inl x
       | Inr counts \<Rightarrow> for_loop (sum_iteration L g) counts ([], []) w)"

text \<open>
  \<^verbatim>\<open>
  def measure_train_speed():
      len_df = len(df)
      dask_speed = []
      pandas_speed = []
      for count in range(100000, len_df, 100000):
          ddf_chunk = ddf.head(count, compute=False)
          df_chunk = df.head(count)
          start_time = time.time()
          ddf_chunk.groupby('name').apply(train, meta=object).compute()
          dask_speed.append((time.time() - start_time))
          start_time = time.time()
          df_chunk.groupby('name').apply(train)
          pandas_speed.append((time.time() - start_time))
      return dask_speed, pandas_speed
  \<close>
\<close>

definition train_iteration ::
  "('w, 'df, 'ddf, 'part, 'est) library \<Rightarrow> ('df, 'ddf) globals \<Rightarrow> int \<Rightarrow>
   real list \<times> real list \<Rightarrow> (real list \<times> real list, 'w) py" where
  "train_iteration L g count speeds =
     (case speeds of (dask_speed, pandas_speed) \<Rightarrow>
        py_bind (ddf_head L (ddf g) count) (\<lambda>ddf_chunk.
        py_bind (df_head L (df g) count) (\<lambda>df_chunk.
        py_bind (time_time L) (\<lambda>start_time.
        py_bind (ddf_groupby_apply_compute L (train L) ddf_chunk) (\<lambda>_.
        py_bind (time_time L) (\<lambda>now.
        let dask_speed = dask_speed @ [now - start_time] in
        py_bind (time_time L) (\<lambda>start_time.
        py_bind (df_groupby_apply L (train L) df_chunk) (\<lambda>_.
        py_bind (time_time L) (\<lambda>now.
        let pandas_speed = pandas_speed @ [now - start_time] in
        py_return (dask_speed, pandas_speed))))))))))"

definition measure_train_speed ::
  "('w, 'df, 'ddf, 'part, 'est) library \<Rightarrow> ('df, 'ddf) globals \<Rightarrow>
   (real list \<times> real list, 'w) py" where
  "measure_train_speed L g =
     py_bind (df_len L (df g)) (\<lambda>len_df w.
       case py_range 100000 len_df 100000 of
         Inl x \<Rightarrow> Inl x
       | Inr counts \<Rightarrow> for_loop (train_iteration L g) counts ([], []) w)"

text \<open>
  The cell that runs the second benchmark:
  \<^verbatim>\<open>
  import warnings
  warnings.simplefilter(action='ignore', category=FutureWarning)
  dask_speed, pandas_speed = measure_train_speed()
  \<close>
\<close>

definition train_benchmark_cell ::
  "('w, 'df, 'ddf, 'part, 'est) library \<Rightarrow> ('df, 'ddf) globals \<Rightarrow>
   (real list \<times> real list, 'w) py" where
  "train_benchmark_cell L g =
     py_bind (warnings_simplefilter L) (\<lambda>_. measure_train_speed L g)"

section \<open>The timed cells of the third notebook\<close>

text \<open>
  Two cells of the third notebook run a library call under IPython's \<^verbatim>\<open>%time\<close>:
  \<^verbatim>\<open>
  %time df['2000-05-05'].compute()
  %time df.loc['Alice'].compute()
  \<close>
  \<^verbatim>\<open>%time\<close> evaluates the expression it is given. When the expression raises, the magic
  catches the exception, has the shell show the traceback and returns; when it returns,
  the magic prints the times and gives the value back. \<open>showtraceback x w\<close> is the world
  the shell leaves after the expression, started in the world \<open>w\<close>, has raised \<open>x\<close>.
\<close>

definition time_magic :: "(exn \<Rightarrow> 'w \<Rightarrow> 'w) \<Rightarrow> ('a, 'w) py \<Rightarrow> ('a pyval, 'w) py" where
  "time_magic showtraceback expression w =
     (case expression w of
        Inl x \<Rightarrow> Inr (PyNone, showtraceback x w)
      | Inr (a, w') \<Rightarrow> Inr (PyObj a, w'))"

subsection \<open>A library to run the functions on\<close>

text \<open>
  A stand-in library for evaluating the functions: the world is a clock that counts
  ticks, a dataframe is its number of rows, an estimator is the flag "fitted", and no
  call raises. A dask sum takes two ticks, a pandas sum one.
\<close>

definition test_library :: "(nat, int, int, unit, bool) library" where
  "test_library =
     \<lparr> df_len = (\<lambda>d w. Inr (d, w)),
       time_time = (\<lambda>w. Inr (real w, w)),
       ddf_head = (\<lambda>d count w. Inr (min d count, w)),
       df_head = (\<lambda>d count w. Inr (min d count, w)),
       ddf_x_sum_compute = (\<lambda>c w. Inr (0, w + 2)),
       df_x_sum = (\<lambda>c w. Inr (0, w + 1)),
       LinearRegression = (\<lambda>w. Inr (False, w)),
       est_fit = (\<lambda>est part w. Inr (True, w + 1)),
       ddf_groupby_apply_compute =
         (\<lambda>f c w. case f () w of Inl x \<Rightarrow> Inl x | Inr (r, w') \<Rightarrow> Inr ((), w' + 1)),
       df_groupby_apply =
         (\<lambda>f c w. case f () w of Inl x \<Rightarrow> Inl x | Inr (r, w') \<Rightarrow> Inr ((), w')),
       warnings_simplefilter = (\<lambda>w. Inr ((), w)) \<rparr>"

text \<open>The same library on a cluster that runs out of memory on a chunk of more than 150000 rows.\<close>

definition small_cluster :: "(nat, int, int, unit, bool) library" where
  "small_cluster =
     test_library \<lparr> ddf_x_sum_compute :=
       (\<lambda>c w. if 150000 < c then Inl (Raised ''MemoryError'') else Inr (0, w + 2)) \<rparr>"

text \<open>A \<^verbatim>\<open>.compute()\<close> on a cluster that has run out of memory.\<close>

definition out_of_memory_compute :: "(int, nat) py" where
  "out_of_memory_compute w = Inl (Raised ''MemoryError'')"

text \<open>A shell for which showing a traceback takes one tick.\<close>

definition test_showtraceback :: "exn \<Rightarrow> nat \<Rightarrow> nat" where
  "test_showtraceback x w = w + 1"

definition notebook_globals :: "int \<Rightarrow> int \<Rightarrow> (int, int) globals" where
  "notebook_globals rows chunk = \<lparr> df = rows, ddf = rows, CHUNK_SIZE = chunk \<rparr>"

section \<open>The notebooks as syntax\<close>

text \<open>
  Some statements of the specification are about what the notebooks' code contains
  (a loop, a keyword argument, an exception handler). For these the code cells are
  transcribed as abstract syntax, statement by statement, in the shape of Python's own
  \<^verbatim>\<open>ast\<close> module. A cell is the list of its top-level statements, a notebook the list of
  its code cells in order; markdown cells hold no code. The statement forms
  \<open>IfStmt\<close>, \<open>Try\<close>, \<open>With\<close>, \<open>Raise\<close> and \<open>Global\<close> belong to the language and occur in
  no cell.
\<close>

datatype operator = Add | Sub | Div | Mod

datatype cmpop = Gt | Lt

datatype boolop = And | Or

datatype expr =
    Name string
  | Num int
  | FloatNum string
  | Str string
  | NameConstant bool
  | Attribute expr string
  | Subscript expr expr
  | Call expr "expr list" "(string \<times> expr) list"
  | BinOp expr operator expr
  | Compare expr cmpop expr
  | BoolOp boolop "expr list"
  | ListE "expr list"
  | TupleE "expr list"
  | DictE "(expr \<times> expr) list"

datatype stmt =
    Import string "string option"
  | ImportFrom string "string list"
  | Assign expr expr
  | AugAssign expr operator expr
  | Expr expr
  | FunctionDef string "(string \<times> expr option) list" "expr list" "stmt list"
  | Return "expr option"
  | While expr "stmt list"
  | For expr expr "stmt list"
  | IfStmt expr "stmt list" "stmt list"
  | Try "stmt list" "stmt list" "stmt list"
  | With expr "stmt list"
  | Raise "expr option"
  | Global "string list"
  | Magic string "expr option"

type_synonym cell = "stmt list"

type_synonym notebook = "cell list"

text \<open>
  \<open>Import m a\<close> is \<^verbatim>\<open>import m\<close> or \<^verbatim>\<open>import m as a\<close>; \<open>FunctionDef\<close> holds the name, the
  parameters with their defaults, the decorators and the body; \<open>Try\<close> holds the body, the
  handlers' statements and the \<^verbatim>\<open>finally\<close> block; \<open>Magic\<close> is an IPython line magic with
  the expression it runs, if any.
\<close>

subsection \<open>\<^verbatim>\<open>dataframe.ipynb\<close>\<close>

abbreviation time_call :: expr where
  "time_call \<equiv> Call (Attribute (Name ''time'') ''time'') [] []"

abbreviation elapsed :: expr where
  "elapsed \<equiv> BinOp time_call Sub (Name ''start_time'')"

definition client_cell :: cell where
  "client_cell =
     [ImportFrom ''dask.distributed'' [''Client''],
      Assign (Name ''client'')
        (Call (Name ''Client'') []
           [(''n_workers'', Num 2), (''threads_per_worker'', Num 2), (''memory_limit'', Str ''2GB'')]),
      Expr (Name ''client'')]"

definition timeseries_cell :: cell where
  "timeseries_cell =
     [Import ''dask'' None,
      Import ''dask.dataframe'' (Some ''dd''),
      Assign (Name ''ddf'')
        (Call (Attribute (Attribute (Name ''dask'') ''datasets'') ''timeseries'') [] [])]"

definition human_readable_size_cell :: cell where
  "human_readable_size_cell =
     [FunctionDef ''human_readable_size'' [(''size'', None), (''precision'', Some (Num 2))] []
        [Assign (Name ''suffixes'') (ListE [Str ''B'', Str ''KB'', Str ''MB'', Str ''GB'', Str ''TB'']),
         Assign (Name ''suffixIndex'') (Num 0),
         While (BoolOp And [Compare (Name ''size'') Gt (Num 1024),
                            Compare (Name ''suffixIndex'') Lt (Num 4)])
           [AugAssign (Name ''suffixIndex'') Add (Num 1),
            Assign (Name ''size'') (BinOp (Name ''size'') Div (FloatNum ''1024.0''))],
         Return (Some (BinOp (Str ''%.*f%s'') Mod
           (TupleE [Name ''precision'', Name ''size'',
                    Subscript (Name ''suffixes'') (Name ''suffixIndex'')])))]]"

definition measure_sum_speed_cell :: cell where
  "measure_sum_speed_cell =
     [FunctionDef ''measure_sum_speed'' [] []
        [Assign (Name ''len_df'') (Call (Name ''len'') [Name ''df''] []),
         Assign (Name ''dask_speed'') (ListE []),
         Assign (Name ''pandas_speed'') (ListE []),
         For (Name ''count'')
             (Call (Name ''range'') [Name ''CHUNK_SIZE'', Name ''len_df'', Name ''CHUNK_SIZE''] [])
           [Assign (Name ''ddf_chunk'')
              (Call (Attribute (Name ''ddf'') ''head'') [Name ''count'']
                 [(''compute'', NameConstant False)]),
            Assign (Name ''df_chunk'') (Call (Attribute (Name ''df'') ''head'') [Name ''count''] []),
            Assign (Name ''start_time'') time_call,
            Expr (Call (Attribute
                     (Call (Attribute (Attribute (Name ''ddf_chunk'') ''x'') ''sum'') [] [])
                     ''compute'') [] []),
            Expr (Call (Attribute (Name ''dask_speed'') ''append'') [elapsed] []),
            Assign (Name ''start_time'') time_call,
            Expr (Call (Attribute (Attribute (Name ''df_chunk'') ''x'') ''sum'') [] []),
            Expr (Call (Attribute (Name ''pandas_speed'') ''append'') [elapsed] [])],
         Return (Some (TupleE [Name ''dask_speed'', Name ''pandas_speed'']))]]"

definition plot_cell :: cell where
  "plot_cell =
     [Import ''matplotlib.pyplot'' (Some ''plt''),
      Import ''numpy'' (Some ''np''),
      Assign (Name ''x'')
        (Call (Name ''range'')
           [Name ''CHUNK_SIZE'', Call (Name ''len'') [Name ''df''] [], Name ''CHUNK_SIZE''] []),
      Assign (TupleE [Name ''f'', Name ''ax''])
        (Call (Attribute (Name ''plt'') ''subplots'') [Num 1]
           [(''figsize'', TupleE [Num 20, Num 10])]),
      Expr (Call (Attribute (Name ''ax'') ''plot'') [Name ''x'', Name ''dask_speed''] []),
      Expr (Call (Attribute (Name ''ax'') ''plot'') [Name ''x'', Name ''pandas_speed''] []),
      Expr (Call (Attribute (Name ''ax'') ''legend'') [ListE [Str ''dask'', Str ''pandas'']]
              [(''loc'', Str ''upper left''), (''fontsize'', Num 22)]),
      Expr (Call (Attribute (Name ''f'') ''show'') [] [])]"

definition train_cell :: cell where
  "train_cell =
     [ImportFrom ''sklearn.linear_model'' [''LinearRegression''],
      FunctionDef ''train'' [(''partition'', None)] []
        [Assign (Name ''est'') (Call (Name ''LinearRegression'') [] []),
         Expr (Call (Attribute (Name ''est'') ''fit'')
                 [Attribute (Subscript (Name ''partition'') (ListE [Str ''x''])) ''values'',
                  Attribute (Attribute (Name ''partition'') ''y'') ''values''] [])]]"

definition measure_train_speed_cell :: cell where
  "measure_train_speed_cell =
     [Import ''pandas'' (Some ''pd''),
      FunctionDef ''measure_train_speed'' [] []
        [Assign (Name ''len_df'') (Call (Name ''len'') [Name ''df''] []),
         Assign (Name ''dask_speed'') (ListE []),
         Assign (Name ''pandas_speed'') (ListE []),
         For (Name ''count'')
             (Call (Name ''range'') [Num 100000, Name ''len_df'', Num 100000] [])
           [Assign (Name ''ddf_chunk'')
              (Call (Attribute (Name ''ddf'') ''head'') [Name ''count'']
                 [(''compute'', NameConstant False)]),
            Assign (Name ''df_chunk'') (Call (Attribute (Name ''df'') ''head'') [Name ''count''] []),
            Assign (Name ''start_time'') time_call,
            Expr (Call (Attribute
                     (Call (Attribute
                        (Call (Attribute (Name ''ddf_chunk'') ''groupby'') [Str ''name''] [])
                        ''apply'') [Name ''train''] [(''meta'', Name ''object'')])
                     ''compute'') [] []),
            Expr (Call (Attribute (Name ''dask_speed'') ''append'') [elapsed] []),
            Assign (Name ''start_time'') time_call,
            Expr (Call (Attribute
                     (Call (Attribute (Name ''df_chunk'') ''groupby'') [Str ''name''] [])
                     ''apply'') [Name ''train''] []),
            Expr (Call (Attribute (Name ''pandas_speed'') ''append'') [elapsed] [])],
         Return (Some (TupleE [Name ''dask_speed'', Name ''pandas_speed'']))]]"

definition dataframe_ipynb :: notebook where
  "dataframe_ipynb =
     [client_cell,
      timeseries_cell,
      [Expr (Name ''ddf'')],
      [Expr (Attribute (Name ''ddf'') ''dtypes'')],
      human_readable_size_cell,
      [Expr (Call (Name ''human_readable_size'')
         [Call (Attribute
            (Call (Attribute
               (Call (Attribute (Name ''ddf'') ''memory_usage'') [] [(''deep'', NameConstant True)])
               ''sum'') [] [])
            ''compute'') [] []] [])],
      [Import ''time'' None,
       Assign (Name ''start_time'') time_call,
       Assign (Name ''df'') (Call (Attribute (Name ''ddf'') ''compute'') [] []),
       Expr (Call (Name ''print'') [BinOp (Str ''--- %.2f seconds ---'') Mod elapsed] [])],
      [Import ''sys'' None,
       Expr (Call (Name ''human_readable_size'')
         [Call (Attribute (Name ''sys'') ''getsizeof'') [Name ''df''] []] [])],
      [Expr (Call (Name ''len'') [Name ''df''] [])],
      [Assign (Name ''CHUNK_SIZE'') (Num 100000)],
      measure_sum_speed_cell,
      [Assign (TupleE [Name ''dask_speed'', Name ''pandas_speed''])
         (Call (Name ''measure_sum_speed'') [] [])],
      plot_cell,
      train_cell,
      measure_train_speed_cell,
      [Import ''warnings'' None,
       Expr (Call (Attribute (Name ''warnings'') ''simplefilter'') []
               [(''action'', Str ''ignore''), (''category'', Name ''FutureWarning'')]),
       Assign (TupleE [Name ''dask_speed'', Name ''pandas_speed''])
         (Call (Name ''measure_train_speed'') [] [])],
      plot_cell]"

subsection \<open>\<^verbatim>\<open>dag.ipynb\<close>\<close>

abbreviation x_dot_xT :: expr where
  "x_dot_xT \<equiv> Call (Attribute (Name ''x'') ''dot'') [Attribute (Name ''x'') ''T''] []"

abbreviation x_mean :: expr where
  "x_mean \<equiv> Call (Attribute (Name ''x'') ''mean'') [] []"

definition delayed_cell :: cell where
  "delayed_cell =
     [Import ''dask'' None,
      FunctionDef ''inc'' [(''i'', None)] [Attribute (Name ''dask'') ''delayed'']
        [Return (Some (BinOp (Name ''i'') Add (Num 1)))],
      FunctionDef ''add'' [(''a'', None), (''b'', None)] [Attribute (Name ''dask'') ''delayed'']
        [Return (Some (BinOp (Name ''a'') Add (Name ''b'')))]]"

definition dag_ipynb :: notebook where
  "dag_ipynb =
     [client_cell,
      delayed_cell,
      [Assign (Name ''x'') (Num 1),
       Assign (Name ''y'') (Call (Name ''inc'') [Name ''x''] []),
       Assign (Name ''z'') (Call (Name ''add'') [Name ''y'', Num 10] []),
       Expr (Call (Attribute (Name ''z'') ''visualize'') [] [])],
      [Assign (Name ''x'') (Call (Name ''inc'') [Num 1] []),
       Assign (Name ''y'') (Call (Name ''inc'') [Num 2] []),
       Assign (Name ''z'') (Call (Name ''add'') [Name ''x'', Name ''y''] []),
       Expr (Call (Attribute (Name ''z'') ''visualize'') [] [])],
      [Import ''dask.array'' (Some ''da'')],
      [Assign (Name ''x'')
         (Call (Attribute (Name ''da'') ''ones'') [TupleE [Num 15, Num 15]]
            [(''chunks'', TupleE [Num 5, Num 5])]),
       Expr (Call (Attribute (Name ''x'') ''visualize'') [] [])],
      [Expr (Call (Attribute (Attribute (Name ''x'') ''T'') ''visualize'') [] [])],
      [Expr (Call (Attribute x_dot_xT ''visualize'') [] [])],
      [Expr (Call (Attribute (BinOp x_dot_xT Sub x_mean) ''visualize'') [] [])],
      [Expr (Call (Attribute
         (Call (Attribute (BinOp x_dot_xT Sub x_mean) ''std'') [] []) ''visualize'') [] [])]]"

subsection \<open>The third notebook\<close>

abbreviation df_x_y :: expr where
  "df_x_y \<equiv> Subscript (Name ''df'') (ListE [Str ''x'', Str ''y''])"

abbreviation weekly_mean :: expr where
  "weekly_mean \<equiv>
     Call (Attribute (Call (Attribute df_x_y ''resample'') [Str ''1w''] []) ''mean'') [] []"

abbreviation one_day :: expr where
  "one_day \<equiv> Subscript (Name ''df'') (Str ''2000-05-05'')"

definition client_cell_part_000 :: cell where
  "client_cell_part_000 =
     [ImportFrom ''dask.distributed'' [''Client'', ''progress''],
      Assign (Name ''client'')
        (Call (Name ''Client'') []
           [(''processes'', NameConstant False), (''threads_per_worker'', Num 4),
            (''n_workers'', Num 1)]),
      Expr (Name ''client'')]"

definition make_timeseries_cell :: cell where
  "make_timeseries_cell =
     [Import ''dask.dataframe'' (Some ''dd''),
      Assign (Name ''df'')
        (Call (Attribute (Attribute (Name ''dd'') ''demo'') ''make_timeseries'')
           [Str ''2000-01-01'', Str ''2000-12-31'']
           [(''freq'', Str ''10s''), (''partition_freq'', Str ''1M''),
            (''dtypes'', DictE [(Str ''name'', Name ''str''), (Str ''id'', Name ''int''),
                               (Str ''x'', Name ''float''), (Str ''y'', Name ''float'')])]),
      Expr (Name ''df'')]"

definition train_cell_part_000 :: cell where
  "train_cell_part_000 =
     [ImportFrom ''sklearn.linear_model'' [''LinearRegression''],
      FunctionDef ''train'' [(''partition'', None)] []
        [Assign (Name ''est'') (Call (Name ''LinearRegression'') [] []),
         Expr (Call (Attribute (Name ''est'') ''fit'')
                 [Attribute (Subscript (Name ''partition'') (ListE [Str ''x''])) ''values'',
                  Attribute (Attribute (Name ''partition'') ''y'') ''values''] []),
         Return (Some (Name ''est''))]]"

definition part_000 :: notebook where
  "part_000 =
     [client_cell_part_000,
      make_timeseries_cell,
      [Expr (Call (Attribute (Name ''df'') ''head'') [] [])],
      [Expr (Attribute (Name ''df'') ''dtypes'')],
      [Assign (Name ''df2'')
         (Subscript (Name ''df'') (Compare (Attribute (Name ''df'') ''y'') Gt (Num 0))),
       Assign (Name ''df3'')
         (Call (Attribute (Attribute
            (Call (Attribute (Name ''df2'') ''groupby'') [Str ''name''] []) ''x'') ''std'') [] []),
       Expr (Name ''df3'')],
      [Expr (Call (Attribute (Name ''df3'') ''compute'') [] [])],
      [Assign (Name ''df'') (Call (Attribute (Name ''df'') ''persist'') [] [])],
      [Magic ''%matplotlib inline'' None],
      [Expr (Call (Attribute weekly_mean ''head'') [] [])],
      [Expr (Call (Attribute (Call (Attribute weekly_mean ''compute'') [] []) ''plot'') [] [])],
      [Expr (Call (Attribute
         (Call (Attribute
            (Call (Attribute df_x_y ''rolling'') [] [(''window'', Str ''7d'')]) ''mean'') [] [])
         ''head'') [] [])],
      [Expr one_day],
      [Magic ''%time'' (Some (Call (Attribute one_day ''compute'') [] []))],
      [Assign (Name ''df'') (Call (Attribute (Name ''df'') ''set_index'') [Str ''name''] []),
       Expr (Name ''df'')],
      [Assign (Name ''df'') (Call (Attribute (Name ''df'') ''persist'') [] [])],
      [Magic ''%time''
         (Some (Call (Attribute
            (Subscript (Attribute (Name ''df'') ''loc'') (Str ''Alice'')) ''compute'') [] []))],
      train_cell_part_000,
      [Expr (Call (Attribute
         (Call (Attribute
            (Call (Attribute (Name ''df'') ''groupby'') [Str ''name''] []) ''apply'')
            [Name ''train''] [])
         ''compute'') [] [])]]"

definition repository :: notebook where
  "repository = dataframe_ipynb @ dag_ipynb @ part_000"

subsection \<open>Reading the syntax\<close>

text \<open>Every statement of a cell, the nested ones included, in source order.\<close>

fun sub_stmts :: "stmt \<Rightarrow> stmt list" where
  "sub_stmts (FunctionDef n ps ds body) = FunctionDef n ps ds body # concat (map sub_stmts body)"
| "sub_stmts (While c body) = While c body # concat (map sub_stmts body)"
| "sub_stmts (For t i body) = For t i body # concat (map sub_stmts body)"
| "sub_stmts (IfStmt c a b) =
     IfStmt c a b # concat (map sub_stmts a) @ concat (map sub_stmts b)"
| "sub_stmts (Try a b c) =
     Try a b c # concat (map sub_stmts a) @ concat (map sub_stmts b) @ concat (map sub_stmts c)"
| "sub_stmts (With e body) = With e body # concat (map sub_stmts body)"
| "sub_stmts s = [s]"

definition statements :: "notebook \<Rightarrow> stmt list" where
  "statements nb = concat (map sub_stmts (concat nb))"

text \<open>A loop or a branch.\<close>

fun is_control_flow :: "stmt \<Rightarrow> bool" where
  "is_control_flow (While _ _) = True"
| "is_control_flow (For _ _ _) = True"
| "is_control_flow (IfStmt _ _ _) = True"
| "is_control_flow _ = False"

fun loop_keyword :: "stmt \<Rightarrow> string" where
  "loop_keyword (While _ _) = ''while''"
| "loop_keyword (For _ _ _) = ''for''"
| "loop_keyword (IfStmt _ _ _) = ''if''"
| "loop_keyword _ = []"

text \<open>
  Python's own statement forms for handling and raising exceptions: \<^verbatim>\<open>try\<close>,
  \<^verbatim>\<open>with\<close> and \<^verbatim>\<open>raise\<close>. (An IPython magic is not one of them; see
  \<open>alters_propagation\<close>.)
\<close>

fun handles_errors :: "stmt \<Rightarrow> bool" where
  "handles_errors (Try _ _ _) = True"
| "handles_errors (With _ _) = True"
| "handles_errors (Raise _) = True"
| "handles_errors _ = False"

text \<open>
  A statement by which the notebook's own code catches, suppresses or raises an
  exception: \<^verbatim>\<open>try\<close>, \<^verbatim>\<open>with\<close> (a context manager may swallow an exception),
  \<^verbatim>\<open>raise\<close>, and the IPython magic \<^verbatim>\<open>%time\<close> applied to an expression, which catches
  what the expression raises.
\<close>

fun alters_propagation :: "stmt \<Rightarrow> bool" where
  "alters_propagation (Try _ _ _) = True"
| "alters_propagation (With _ _) = True"
| "alters_propagation (Raise _) = True"
| "alters_propagation (Magic m (Some _)) = (m = ''%time'')"
| "alters_propagation _ = False"

text \<open>Every expression inside an expression, itself included.\<close>

fun sub_exprs :: "expr \<Rightarrow> expr list" where
  "sub_exprs (Attribute e a) = Attribute e a # sub_exprs e"
| "sub_exprs (Subscript e i) = Subscript e i # sub_exprs e @ sub_exprs i"
| "sub_exprs (Call f args kws) =
     Call f args kws # sub_exprs f @ concat (map sub_exprs args) @
       concat (map (\<lambda>kw. sub_exprs (snd kw)) kws)"
| "sub_exprs (BinOp a op b) = BinOp a op b # sub_exprs a @ sub_exprs b"
| "sub_exprs (Compare a op b) = Compare a op b # sub_exprs a @ sub_exprs b"
| "sub_exprs (BoolOp op es) = BoolOp op es # concat (map sub_exprs es)"
| "sub_exprs (ListE es) = ListE es # concat (map sub_exprs es)"
| "sub_exprs (TupleE es) = TupleE es # concat (map sub_exprs es)"
| "sub_exprs (DictE kvs) =
     DictE kvs # concat (map (\<lambda>kv. sub_exprs (fst kv) @ sub_exprs (snd kv)) kvs)"
| "sub_exprs e = [e]"

text \<open>The expressions a statement holds itself (not those of the statements nested in it).\<close>

fun stmt_exprs :: "stmt \<Rightarrow> expr list" where
  "stmt_exprs (Assign t v) = [t, v]"
| "stmt_exprs (AugAssign t _ v) = [t, v]"
| "stmt_exprs (Expr e) = [e]"
| "stmt_exprs (FunctionDef _ ps ds _) = concat (map (\<lambda>p. case snd p of None \<Rightarrow> [] | Some d \<Rightarrow> [d]) ps) @ ds"
| "stmt_exprs (Return r) = (case r of None \<Rightarrow> [] | Some e \<Rightarrow> [e])"
| "stmt_exprs (While c _) = [c]"
| "stmt_exprs (For t i _) = [t, i]"
| "stmt_exprs (IfStmt c _ _) = [c]"
| "stmt_exprs (With e _) = [e]"
| "stmt_exprs (Raise r) = (case r of None \<Rightarrow> [] | Some e \<Rightarrow> [e])"
| "stmt_exprs (Magic _ r) = (case r of None \<Rightarrow> [] | Some e \<Rightarrow> [e])"
| "stmt_exprs _ = []"

definition expressions :: "notebook \<Rightarrow> expr list" where
  "expressions nb = concat (map sub_exprs (concat (map stmt_exprs (statements nb))))"

text \<open>The calls of a given callee: each with its positional arguments and its keywords.\<close>

fun call_of :: "expr \<Rightarrow> expr \<Rightarrow> (expr list \<times> (string \<times> expr) list) list" where
  "call_of f (Call g args kws) = (if g = f then [(args, kws)] else [])"
| "call_of f _ = []"

definition calls_to :: "expr \<Rightarrow> notebook \<Rightarrow> (expr list \<times> (string \<times> expr) list) list" where
  "calls_to f nb = concat (map (call_of f) (expressions nb))"

text \<open>The constructions of the processing client, \<^verbatim>\<open>Client(...)\<close>.\<close>

definition client_constructions :: "notebook \<Rightarrow> (expr list \<times> (string \<times> expr) list) list" where
  "client_constructions nb = calls_to (Name ''Client'') nb"

definition client_keywords :: "notebook \<Rightarrow> string list list" where
  "client_keywords nb = map (\<lambda>c. map fst (snd c)) (client_constructions nb)"

definition supplies_all_three :: "string list \<Rightarrow> bool" where
  "supplies_all_three kws =
     (''n_workers'' \<in> set kws \<and> ''threads_per_worker'' \<in> set kws \<and> ''memory_limit'' \<in> set kws)"

text \<open>
  The generations of the dataset: the calls of \<^verbatim>\<open>dask.datasets.timeseries\<close> and of
  \<^verbatim>\<open>dd.demo.make_timeseries\<close>, each with its positional arguments and keyword names.
\<close>

definition dataset_generations :: "notebook \<Rightarrow> (expr list \<times> string list) list" where
  "dataset_generations nb =
     map (\<lambda>c. (fst c, map fst (snd c)))
       (calls_to (Attribute (Attribute (Name ''dask'') ''datasets'') ''timeseries'') nb @
        calls_to (Attribute (Attribute (Name ''dd'') ''demo'') ''make_timeseries'') nb)"

text \<open>A literal: a number, a string, \<^verbatim>\<open>True\<close> or \<^verbatim>\<open>False\<close>.\<close>

fun is_literal :: "expr \<Rightarrow> bool" where
  "is_literal (Num _) = True"
| "is_literal (FloatNum _) = True"
| "is_literal (Str _) = True"
| "is_literal (NameConstant _) = True"
| "is_literal _ = False"

text \<open>The names an expression reads.\<close>

fun names :: "expr \<Rightarrow> string list" where
  "names (Name n) = [n]"
| "names (Attribute e _) = names e"
| "names (Subscript e i) = names e @ names i"
| "names (Call f args kws) =
     names f @ concat (map names args) @ concat (map (\<lambda>kw. names (snd kw)) kws)"
| "names (BinOp a _ b) = names a @ names b"
| "names (Compare a _ b) = names a @ names b"
| "names (BoolOp _ es) = concat (map names es)"
| "names (ListE es) = concat (map names es)"
| "names (TupleE es) = concat (map names es)"
| "names (DictE kvs) = concat (map (\<lambda>kv. names (fst kv) @ names (snd kv)) kvs)"
| "names _ = []"

text \<open>
  An assignment target binds the names it is made of (\<^verbatim>\<open>a, b = ...\<close> binds both) and
  reads the names under an attribute or a subscript.
\<close>

fun target_stores :: "expr \<Rightarrow> string list" where
  "target_stores (Name n) = [n]"
| "target_stores (TupleE es) = concat (map target_stores es)"
| "target_stores (ListE es) = concat (map target_stores es)"
| "target_stores _ = []"

fun target_loads :: "expr \<Rightarrow> string list" where
  "target_loads (Name n) = []"
| "target_loads (TupleE es) = concat (map target_loads es)"
| "target_loads (ListE es) = concat (map target_loads es)"
| "target_loads e = names e"

text \<open>
  The names a statement itself reads and binds. \<^verbatim>\<open>import a.b\<close> binds \<^verbatim>\<open>a\<close>,
  \<^verbatim>\<open>import a.b as c\<close> binds \<^verbatim>\<open>c\<close>; a function definition reads its defaults and
  decorators and binds its name.
\<close>

fun loads :: "stmt \<Rightarrow> string list" where
  "loads (Assign t v) = target_loads t @ names v"
| "loads (AugAssign t _ v) = names t @ names v"
| "loads (For t i _) = target_loads t @ names i"
| "loads s = concat (map names (stmt_exprs s))"

fun stores :: "stmt \<Rightarrow> string list" where
  "stores (Import m a) = (case a of None \<Rightarrow> [takeWhile (\<lambda>c. c \<noteq> CHR ''.'') m] | Some n \<Rightarrow> [n])"
| "stores (ImportFrom _ ns) = ns"
| "stores (Assign t _) = target_stores t"
| "stores (AugAssign t _ _) = target_stores t"
| "stores (For t _ _) = target_stores t"
| "stores (FunctionDef n _ _ _) = [n]"
| "stores _ = []"

text \<open>The functions a notebook defines, with their parameters and bodies.\<close>

fun function_def :: "stmt \<Rightarrow> (string \<times> string list \<times> stmt list) list" where
  "function_def (FunctionDef n ps _ body) = [(n, map fst ps, body)]"
| "function_def _ = []"

definition function_defs :: "notebook \<Rightarrow> (string \<times> string list \<times> stmt list) list" where
  "function_defs nb = concat (map function_def (statements nb))"

text \<open>
  The kinds of cell. A cell is usage glue when each of its statements is an import, an
  IPython magic, an assignment or an expression statement (so it holds no function
  definition, no loop and no branch) and none of them reads the name of a function the
  notebook defines: whatever it calls is a library's or a built-in. Of the other cells,
  one that holds a loop or a branch, nested or not, is \<open>HasControlFlow\<close>; else one
  that holds a function definition is \<open>DefinesFunctions\<close>; else one made of those
  simple statements that reads a function of the notebook is \<open>UsesOwnFunctions\<close>; a
  cell of no such kind would be \<open>OtherCell\<close>.
\<close>

fun simple_stmt :: "stmt \<Rightarrow> bool" where
  "simple_stmt (Import _ _) = True"
| "simple_stmt (ImportFrom _ _) = True"
| "simple_stmt (Assign _ _) = True"
| "simple_stmt (Expr _) = True"
| "simple_stmt (Magic _ _) = True"
| "simple_stmt _ = False"

definition own_functions :: "notebook \<Rightarrow> string list" where
  "own_functions nb = map fst (function_defs nb)"

definition own_functions_read :: "notebook \<Rightarrow> cell \<Rightarrow> string list" where
  "own_functions_read nb c =
     filter (\<lambda>n. n \<in> set (own_functions nb)) (concat (map loads (concat (map sub_stmts c))))"

definition glue_cell :: "notebook \<Rightarrow> cell \<Rightarrow> bool" where
  "glue_cell nb c = (filter (\<lambda>s. \<not> simple_stmt s) c = [] \<and> own_functions_read nb c = [])"

datatype cell_kind = Glue | UsesOwnFunctions | DefinesFunctions | HasControlFlow | OtherCell

definition cell_kind_of :: "notebook \<Rightarrow> cell \<Rightarrow> cell_kind" where
  "cell_kind_of nb c =
     (if filter is_control_flow (concat (map sub_stmts c)) \<noteq> [] then HasControlFlow
      else if function_defs [c] \<noteq> [] then DefinesFunctions
      else if filter (\<lambda>s. \<not> simple_stmt s) c \<noteq> [] then OtherCell
      else if own_functions_read nb c \<noteq> [] then UsesOwnFunctions
      else Glue)"

text \<open>The loops and branches in the body of each function a notebook defines.\<close>

definition function_loops :: "notebook \<Rightarrow> (string \<times> string list) list" where
  "function_loops nb =
     map (\<lambda>(n, params, body).
            (n, map loop_keyword (filter is_control_flow (concat (map sub_stmts body)))))
       (function_defs nb)"

text \<open>
  Python's scoping: inside a function a name is local when it is a parameter or is bound
  anywhere in the body, unless a \<^verbatim>\<open>global\<close> statement declares it; every other name it
  reads is looked up in the module, then among the built-ins. \<open>module_names\<close> are the names
  bound by the top-level statements of a notebook, and \<open>module_reads\<close> the module-level
  names a function body reads.
\<close>

fun global_decl :: "stmt \<Rightarrow> string list" where
  "global_decl (Global ns) = ns"
| "global_decl _ = []"

definition global_decls :: "stmt list \<Rightarrow> string list" where
  "global_decls body = concat (map global_decl (concat (map sub_stmts body)))"

definition local_names :: "string list \<Rightarrow> stmt list \<Rightarrow> string list" where
  "local_names params body =
     filter (\<lambda>n. n \<notin> set (global_decls body))
       (params @ concat (map stores (concat (map sub_stmts body))))"

definition free_names :: "string list \<Rightarrow> stmt list \<Rightarrow> string list" where
  "free_names params body =
     remdups (filter (\<lambda>n. n \<notin> set (local_names params body))
       (concat (map loads (concat (map sub_stmts body)))))"

definition module_names :: "notebook \<Rightarrow> string list" where
  "module_names nb = concat (map stores (concat nb))"

definition module_reads :: "notebook \<Rightarrow> (string \<times> string list) list" where
  "module_reads nb =
     map (\<lambda>(n, params, body). (n, filter (\<lambda>v. v \<in> set (module_names nb)) (free_names params body)))
       (function_defs nb)"

definition module_writes :: "notebook \<Rightarrow> (string \<times> string list) list" where
  "module_writes nb = map (\<lambda>(n, params, body). (n, global_decls body)) (function_defs nb)"

text \<open>The modules a notebook imports, and the statements that mention a given name.\<close>

fun imported :: "stmt \<Rightarrow> string list" where
  "imported (Import m _) = [m]"
| "imported (ImportFrom m _) = [m]"
| "imported _ = []"

definition imports_of :: "notebook \<Rightarrow> string list" where
  "imports_of nb = remdups (concat (map imported (statements nb)))"

definition mentions :: "string \<Rightarrow> notebook \<Rightarrow> stmt list" where
  "mentions n nb = filter (\<lambda>s. n \<in> set (loads s @ stores s)) (statements nb)"

section \<open>Properties of the size formatter\<close>

lemma hrs_loop_stop:
  "\<not> (num_gt_1024 F sz \<and> i < 4) \<Longrightarrow> hrs_loop F sz i = (None, sz, i)"
  by (subst hrs_loop.simps) (rule if_not_P)

lemma hrs_loop_raise:
  "num_gt_1024 F sz \<Longrightarrow> i < 4 \<Longrightarrow> num_div_1024 F sz = Inl e \<Longrightarrow>
   hrs_loop F sz i = (Some e, sz, i + 1)"
  by (subst hrs_loop.simps) simp

lemma hrs_loop_step:
  "num_gt_1024 F sz \<Longrightarrow> i < 4 \<Longrightarrow> num_div_1024 F sz = Inr x \<Longrightarrow>
   hrs_loop F sz i = hrs_loop F (FloatN x) (i + 1)"
  by (subst hrs_loop.simps) simp

text \<open>The loop leaves the index between where it started and 4, also when it raises.\<close>

lemma hrs_loop_index_bounds:
  "0 \<le> i \<Longrightarrow> i \<le> 4 \<Longrightarrow>
   i \<le> snd (snd (hrs_loop F sz i)) \<and> snd (snd (hrs_loop F sz i)) \<le> 4"
proof (induction F sz i rule: hrs_loop.induct)
  case (1 F sz suffixIndex)
  show ?case
  proof (cases "num_gt_1024 F sz \<and> suffixIndex < 4")
    case False
    then have "hrs_loop F sz suffixIndex = (None, sz, suffixIndex)"
      by (rule hrs_loop_stop)
    with "1.prems" show ?thesis by simp
  next
    case True
    show ?thesis
    proof (cases "num_div_1024 F sz")
      case (Inl e)
      with True have "hrs_loop F sz suffixIndex = (Some e, sz, suffixIndex + 1)"
        by (simp add: hrs_loop_raise)
      with True show ?thesis by simp
    next
      case (Inr x)
      with True have "hrs_loop F sz suffixIndex = hrs_loop F (FloatN x) (suffixIndex + 1)"
        by (simp add: hrs_loop_step)
      moreover have "suffixIndex + 1 \<le> snd (snd (hrs_loop F (FloatN x) (suffixIndex + 1))) \<and>
          snd (snd (hrs_loop F (FloatN x) (suffixIndex + 1))) \<le> 4"
        using "1.IH" [OF True Inr] True "1.prems" by simp
      ultimately show ?thesis by simp
    qed
  qed
qed

text \<open>
  On a float the loop never raises: started at index \<open>i\<close> it divides \<open>k\<close> times, where
  \<open>k\<close> is the first count at which the magnitude is not greater than 1024 or the index
  is 4.
\<close>

lemma hrs_loop_float:
  "0 \<le> i \<Longrightarrow> i \<le> 4 \<Longrightarrow>
   \<exists>k. i + int k \<le> 4 \<and>
       hrs_loop F (FloatN x) i = (None, FloatN ((float_div_1024 F ^^ k) x), i + int k) \<and>
       (\<forall>j<k. float_gt_1024 F ((float_div_1024 F ^^ j) x)) \<and>
       (i + int k < 4 \<longrightarrow> \<not> float_gt_1024 F ((float_div_1024 F ^^ k) x))"
proof (induction "nat (4 - i)" arbitrary: i x)
  case 0
  then have i: "i = 4" by simp
  have "hrs_loop F (FloatN x) 4 = (None, FloatN x, 4)"
    by (simp add: hrs_loop_stop)
  with i show ?case by (intro exI [of _ 0]) simp
next
  case (Suc m)
  then have lt: "i < 4" by simp
  show ?case
  proof (cases "float_gt_1024 F x")
    case False
    then have "hrs_loop F (FloatN x) i = (None, FloatN x, i)"
      by (simp add: hrs_loop_stop num_gt_1024_def)
    with False Suc.prems show ?thesis by (intro exI [of _ 0]) simp
  next
    case True
    with lt have step: "hrs_loop F (FloatN x) i = hrs_loop F (FloatN (float_div_1024 F x)) (i + 1)"
      by (simp add: hrs_loop_step num_gt_1024_def num_div_1024_def)
    have "m = nat (4 - (i + 1))" using Suc.hyps(2) by simp
    from Suc.hyps(1) [OF this, of "float_div_1024 F x"] Suc.prems lt
    obtain k where k:
      "i + 1 + int k \<le> 4"
      "hrs_loop F (FloatN (float_div_1024 F x)) (i + 1) =
         (None, FloatN ((float_div_1024 F ^^ k) (float_div_1024 F x)), i + 1 + int k)"
      "\<forall>j<k. float_gt_1024 F ((float_div_1024 F ^^ j) (float_div_1024 F x))"
      "i + 1 + int k < 4 \<longrightarrow> \<not> float_gt_1024 F ((float_div_1024 F ^^ k) (float_div_1024 F x))"
      by force
    have all: "\<forall>j<Suc k. float_gt_1024 F ((float_div_1024 F ^^ j) x)"
    proof (intro allI impI)
      fix j assume j: "j < Suc k"
      show "float_gt_1024 F ((float_div_1024 F ^^ j) x)"
      proof (cases j)
        case 0
        with True show ?thesis by simp
      next
        case (Suc j')
        with j k(3) have "float_gt_1024 F ((float_div_1024 F ^^ j') (float_div_1024 F x))"
          by simp
        with Suc show ?thesis by (simp add: funpow_swap1)
      qed
    qed
    have "i + int (Suc k) \<le> 4" using k(1) by simp
    moreover have "hrs_loop F (FloatN x) i =
        (None, FloatN ((float_div_1024 F ^^ Suc k) x), i + int (Suc k))"
      using step k(2) by (simp add: funpow_swap1)
    moreover have "i + int (Suc k) < 4 \<longrightarrow> \<not> float_gt_1024 F ((float_div_1024 F ^^ Suc k) x)"
      using k(4) by (simp add: funpow_swap1)
    ultimately show ?thesis using all by blast
  qed
qed

lemma getitem_suffixes:
  "0 \<le> i \<Longrightarrow> i \<le> 4 \<Longrightarrow> getitem suffixes i = Inr (suffixes ! nat i)"
  by (simp add: getitem_def suffixes_def)

text \<open>The subscript never raises: the function fails only where the loop or the formatting does.\<close>

lemma human_readable_size_unfold:
  "human_readable_size F sz precision =
     (case hrs_loop F sz 0 of
        (Some e, sz', suffixIndex) \<Rightarrow> Inl e
      | (None, sz', suffixIndex) \<Rightarrow> formatted F precision sz' (suffixes ! nat suffixIndex))"
proof -
  have "0 \<le> snd (snd (hrs_loop F sz 0)) \<and> snd (snd (hrs_loop F sz 0)) \<le> 4"
    using hrs_loop_index_bounds [of 0 F sz] by simp
  then have "getitem suffixes (snd (snd (hrs_loop F sz 0))) =
      Inr (suffixes ! nat (snd (snd (hrs_loop F sz 0))))"
    by (simp add: getitem_suffixes)
  then show ?thesis
    by (cases "hrs_loop F sz 0")
      (simp add: human_readable_size_def formatted_def split: option.splits)
qed

lemma human_readable_size_float:
  "\<exists>k\<le>4. human_readable_size F (FloatN x) precision =
       formatted F precision (FloatN ((float_div_1024 F ^^ k) x)) (suffixes ! k) \<and>
     (\<forall>j<k. float_gt_1024 F ((float_div_1024 F ^^ j) x)) \<and>
     (k < 4 \<longrightarrow> \<not> float_gt_1024 F ((float_div_1024 F ^^ k) x))"
proof -
  obtain k where k: "int k \<le> 4"
    "hrs_loop F (FloatN x) 0 = (None, FloatN ((float_div_1024 F ^^ k) x), int k)"
    "\<forall>j<k. float_gt_1024 F ((float_div_1024 F ^^ j) x)"
    "int k < 4 \<longrightarrow> \<not> float_gt_1024 F ((float_div_1024 F ^^ k) x)"
    using hrs_loop_float [of 0 F x] by auto
  have "human_readable_size F (FloatN x) precision =
       formatted F precision (FloatN ((float_div_1024 F ^^ k) x)) (suffixes ! k)"
    using k(2) by (simp add: human_readable_size_unfold)
  with k show ?thesis by (intro exI [of _ k]) simp
qed

lemma human_readable_size_small_float:
  assumes "\<not> float_gt_1024 F x"
  shows "human_readable_size F (FloatN x) precision = formatted F precision (FloatN x) ''B''"
proof -
  have "hrs_loop F (FloatN x) 0 = (None, FloatN x, 0)"
    using assms by (simp add: hrs_loop_stop num_gt_1024_def)
  then show ?thesis by (simp add: human_readable_size_unfold suffixes_def)
qed

lemma human_readable_size_small_int:
  assumes "n \<le> 1024"
  shows "human_readable_size F (IntN n) precision = formatted F precision (IntN n) ''B''"
proof -
  have "hrs_loop F (IntN n) 0 = (None, IntN n, 0)"
    using assms by (simp add: hrs_loop_stop num_gt_1024_def)
  then show ?thesis by (simp add: human_readable_size_unfold suffixes_def)
qed

lemma human_readable_size_overflow:
  assumes "1024 < n" and "float_of_int F n = Inl e"
  shows "human_readable_size F (IntN n) precision = Inl e"
proof -
  have "hrs_loop F (IntN n) 0 = (Some e, IntN n, 1)"
    using assms hrs_loop_raise [of F "IntN n" 0 e]
    by (simp add: num_gt_1024_def num_div_1024_def)
  then show ?thesis by (simp add: human_readable_size_unfold)
qed

lemma human_readable_size_large_int:
  assumes "1024 < n" and "float_of_int F n = Inr y"
  shows "\<exists>k\<le>4. 1 \<le> k \<and>
       human_readable_size F (IntN n) precision =
         formatted F precision (FloatN ((float_div_1024 F ^^ k) y)) (suffixes ! k) \<and>
       (\<forall>j<k. 1 \<le> j \<longrightarrow> float_gt_1024 F ((float_div_1024 F ^^ j) y)) \<and>
       (k < 4 \<longrightarrow> \<not> float_gt_1024 F ((float_div_1024 F ^^ k) y))"
proof -
  have step: "hrs_loop F (IntN n) 0 = hrs_loop F (FloatN (float_div_1024 F y)) 1"
    using assms hrs_loop_step [of F "IntN n" 0 "float_div_1024 F y"]
    by (simp add: num_gt_1024_def num_div_1024_def)
  obtain k where k: "1 + int k \<le> 4"
    "hrs_loop F (FloatN (float_div_1024 F y)) 1 =
       (None, FloatN ((float_div_1024 F ^^ k) (float_div_1024 F y)), 1 + int k)"
    "\<forall>j<k. float_gt_1024 F ((float_div_1024 F ^^ j) (float_div_1024 F y))"
    "1 + int k < 4 \<longrightarrow> \<not> float_gt_1024 F ((float_div_1024 F ^^ k) (float_div_1024 F y))"
    using hrs_loop_float [of 1 F "float_div_1024 F y"] by auto
  have "human_readable_size F (IntN n) precision =
      formatted F precision (FloatN ((float_div_1024 F ^^ Suc k) y)) (suffixes ! Suc k)"
    using step k(2) by (simp add: human_readable_size_unfold funpow_swap1 nat_add_distrib)
  moreover have "\<forall>j<Suc k. 1 \<le> j \<longrightarrow> float_gt_1024 F ((float_div_1024 F ^^ j) y)"
  proof (intro allI impI)
    fix j assume "j < Suc k" and "1 \<le> j"
    then obtain j' where j': "j = Suc j'" "j' < k" by (cases j) auto
    with k(3) have "float_gt_1024 F ((float_div_1024 F ^^ j') (float_div_1024 F y))" by simp
    with j' show "float_gt_1024 F ((float_div_1024 F ^^ j) y)" by (simp add: funpow_swap1)
  qed
  moreover have "Suc k < 4 \<longrightarrow> \<not> float_gt_1024 F ((float_div_1024 F ^^ Suc k) y)"
    using k(4) by (simp add: funpow_swap1)
  moreover have "Suc k \<le> 4" "1 \<le> Suc k" using k(1) by simp_all
  ultimately show ?thesis by blast
qed

text \<open>
  C8. \<^verbatim>\<open>human_readable_size\<close> is total and safe on every numeric size and every
  precision: the loop is a terminating recursion; whatever the size, an \<^verbatim>\<open>int\<close> or a
  float, and whether or not the division raises, it leaves \<^verbatim>\<open>suffixIndex\<close> between 0
  and 4 (so it increments it at most 4 times); and the subscript
  \<^verbatim>\<open>suffixes[suffixIndex]\<close> into the five suffixes never raises \<^verbatim>\<open>IndexError\<close>: the
  function yields what the loop and the formatting yield.
\<close>

theorem human_readable_size_total:
  "0 \<le> snd (snd (hrs_loop F sz 0)) \<and> snd (snd (hrs_loop F sz 0)) \<le> 4 \<and>
   int (length suffixes) = 5 \<and>
   getitem suffixes (snd (snd (hrs_loop F sz 0))) =
     Inr (suffixes ! nat (snd (snd (hrs_loop F sz 0)))) \<and>
   human_readable_size F sz precision =
     (case hrs_loop F sz 0 of
        (Some e, sz', suffixIndex) \<Rightarrow> Inl e
      | (None, sz', suffixIndex) \<Rightarrow> formatted F precision sz' (suffixes ! nat suffixIndex))"
proof -
  have b: "0 \<le> snd (snd (hrs_loop F sz 0)) \<and> snd (snd (hrs_loop F sz 0)) \<le> 4"
    using hrs_loop_index_bounds [of 0 F sz] by simp
  then have g: "getitem suffixes (snd (snd (hrs_loop F sz 0))) =
      Inr (suffixes ! nat (snd (snd (hrs_loop F sz 0))))"
    by (simp add: getitem_suffixes)
  have "int (length suffixes) = 5" by (simp add: suffixes_def)
  with b g human_readable_size_unfold [of F sz precision] show ?thesis by blast
qed

text \<open>
  C9. For every numeric size \<^verbatim>\<open>human_readable_size\<close> returns the magnitude
  \<open>size / 1024 ^ k\<close> with the suffix at index \<open>k\<close>, the smallest index with
  \<open>size / 1024 ^ k \<le> 1024\<close>, capped at 4. This fails on an \<^verbatim>\<open>int\<close> too large for a
  float: at \<open>10 ^ 400\<close> the first division \<^verbatim>\<open>size/1024.0\<close> raises \<^verbatim>\<open>OverflowError\<close> and
  nothing is returned.
\<close>

theorem human_readable_size_overflow_counterexample:
  "human_readable_size exact_floats (IntN (10 ^ 400)) (IntN 2) = Inl OverflowError"
  by code_simp

text \<open>
  C9, as amended, in the floats' own arithmetic. For a float size the function yields
  the formatting of the magnitude, the size divided by \<^verbatim>\<open>1024.0\<close> \<open>k\<close> times, followed by
  the suffix at index \<open>k\<close>, where \<open>k\<close> is the smallest index, capped at 4, at which the
  magnitude is not greater than 1024; a float not greater than 1024 (1024 itself, zero, a
  negative size, \<^verbatim>\<open>nan\<close>) keeps its own magnitude and the suffix \<^verbatim>\<open>B\<close>. An \<^verbatim>\<open>int\<close> of at
  most 1024 is formatted as it is, with \<^verbatim>\<open>B\<close>. A larger \<^verbatim>\<open>int\<close> is converted to a float
  by the first division: the conversion's exception is raised if there is one, and
  otherwise the same holds of the converted size, from index 1 on. Where the formatting
  raises, the function raises that exception.
\<close>

theorem human_readable_size_magnitude:
  "(\<exists>k\<le>4. human_readable_size F (FloatN x) precision =
        formatted F precision (FloatN ((float_div_1024 F ^^ k) x)) (suffixes ! k) \<and>
      (\<forall>j<k. float_gt_1024 F ((float_div_1024 F ^^ j) x)) \<and>
      (k < 4 \<longrightarrow> \<not> float_gt_1024 F ((float_div_1024 F ^^ k) x))) \<and>
   (\<not> float_gt_1024 F x \<longrightarrow>
      human_readable_size F (FloatN x) precision = formatted F precision (FloatN x) ''B'') \<and>
   (n \<le> 1024 \<longrightarrow>
      human_readable_size F (IntN n) precision = formatted F precision (IntN n) ''B'') \<and>
   (1024 < n \<longrightarrow>
      (case float_of_int F n of
         Inl e \<Rightarrow> human_readable_size F (IntN n) precision = Inl e
       | Inr y \<Rightarrow>
           (\<exists>k\<le>4. 1 \<le> k \<and>
              human_readable_size F (IntN n) precision =
                formatted F precision (FloatN ((float_div_1024 F ^^ k) y)) (suffixes ! k) \<and>
              (\<forall>j<k. 1 \<le> j \<longrightarrow> float_gt_1024 F ((float_div_1024 F ^^ j) y)) \<and>
              (k < 4 \<longrightarrow> \<not> float_gt_1024 F ((float_div_1024 F ^^ k) y)))))"
proof (intro conjI impI)
  show "\<exists>k\<le>4. human_readable_size F (FloatN x) precision =
        formatted F precision (FloatN ((float_div_1024 F ^^ k) x)) (suffixes ! k) \<and>
      (\<forall>j<k. float_gt_1024 F ((float_div_1024 F ^^ j) x)) \<and>
      (k < 4 \<longrightarrow> \<not> float_gt_1024 F ((float_div_1024 F ^^ k) x))"
    by (rule human_readable_size_float)
next
  assume "\<not> float_gt_1024 F x"
  then show "human_readable_size F (FloatN x) precision = formatted F precision (FloatN x) ''B''"
    by (rule human_readable_size_small_float)
next
  assume "n \<le> 1024"
  then show "human_readable_size F (IntN n) precision = formatted F precision (IntN n) ''B''"
    by (rule human_readable_size_small_int)
next
  assume n: "1024 < n"
  show "case float_of_int F n of
         Inl e \<Rightarrow> human_readable_size F (IntN n) precision = Inl e
       | Inr y \<Rightarrow>
           (\<exists>k\<le>4. 1 \<le> k \<and>
              human_readable_size F (IntN n) precision =
                formatted F precision (FloatN ((float_div_1024 F ^^ k) y)) (suffixes ! k) \<and>
              (\<forall>j<k. 1 \<le> j \<longrightarrow> float_gt_1024 F ((float_div_1024 F ^^ j) y)) \<and>
              (k < 4 \<longrightarrow> \<not> float_gt_1024 F ((float_div_1024 F ^^ k) y)))"
  proof (cases "float_of_int F n")
    case (Inl e)
    with n show ?thesis by (simp add: human_readable_size_overflow)
  next
    case (Inr y)
    with human_readable_size_large_int [OF n Inr, of precision] show ?thesis by simp
  qed
qed

text \<open>The stand-in formatting of 1024 to two places, unfolded by hand.\<close>

lemma digits_1024: "digits 1024 = ''1024''"
  by (simp add: digits.simps [of 1024] digits.simps [of 102] digits.simps [of 10]
      digits.simps [of "Suc 0"])

lemma fixed_point_1024: "fixed_point 2 1024 = ''1024.00''"
  by (simp add: fixed_point_def round_half_even_def Let_def digits_1024 digits.simps [of 0])

theorem human_readable_size_magnitude_witness:
  "human_readable_size exact_floats (FloatN (Finite 3145728)) (IntN 2) = Inr ''3.00MB'' \<and>
   human_readable_size exact_floats (FloatN (Finite 1024)) (IntN 2) = Inr ''1024.00B'' \<and>
   human_readable_size exact_floats (IntN 0) (IntN 2) = Inr ''0.00B'' \<and>
   human_readable_size exact_floats (IntN 2048) (IntN 2) = Inr ''2.00KB''"
proof (intro conjI)
  let ?x = "Finite 3145728"
  let ?gt = "\<lambda>j. float_gt_1024 exact_floats ((float_div_1024 exact_floats ^^ j) ?x)"
  from human_readable_size_magnitude [of exact_floats ?x "IntN 2" 0]
  have "\<exists>k\<le>4. human_readable_size exact_floats (FloatN ?x) (IntN 2) =
        formatted exact_floats (IntN 2) (FloatN ((float_div_1024 exact_floats ^^ k) ?x))
          (suffixes ! k) \<and>
      (\<forall>j<k. ?gt j) \<and> (k < 4 \<longrightarrow> \<not> ?gt k)"
    by (rule conjunct1)
  then obtain k where k: "k \<le> 4"
    "human_readable_size exact_floats (FloatN ?x) (IntN 2) =
        formatted exact_floats (IntN 2) (FloatN ((float_div_1024 exact_floats ^^ k) ?x))
          (suffixes ! k)"
    "\<forall>j<k. ?gt j" "k < 4 \<longrightarrow> \<not> ?gt k"
    by blast
  have g0: "?gt 0" by code_simp
  have g1: "?gt 1" by code_simp
  have g2: "\<not> ?gt 2" by code_simp
  have "k \<noteq> 0"
  proof
    assume "k = 0"
    with k(4) g0 show False by simp
  qed
  moreover have "k \<noteq> 1"
  proof
    assume "k = 1"
    with k(4) g1 show False by simp
  qed
  moreover have "\<not> 2 < k"
  proof
    assume "2 < k"
    with k(3) have "?gt 2" by blast
    with g2 show False ..
  qed
  ultimately have "k = 2" by arith
  moreover have "formatted exact_floats (IntN 2)
      (FloatN ((float_div_1024 exact_floats ^^ 2) ?x)) (suffixes ! 2) = Inr ''3.00MB''"
    by code_simp
  ultimately show "human_readable_size exact_floats (FloatN ?x) (IntN 2) = Inr ''3.00MB''"
    using k(2) by simp
next
  from human_readable_size_magnitude [of exact_floats "Finite 1024" "IntN 2" 0]
  have "\<not> float_gt_1024 exact_floats (Finite 1024) \<longrightarrow>
      human_readable_size exact_floats (FloatN (Finite 1024)) (IntN 2) =
        formatted exact_floats (IntN 2) (FloatN (Finite 1024)) ''B''"
    by blast
  moreover have "\<not> float_gt_1024 exact_floats (Finite 1024)" by code_simp
  moreover have "formatted exact_floats (IntN 2) (FloatN (Finite 1024)) ''B'' = Inr ''1024.00B''"
    by (simp add: formatted_def exact_floats_def exact_format_def exact_format_float_def
        fixed_point_1024)
  ultimately show "human_readable_size exact_floats (FloatN (Finite 1024)) (IntN 2) =
      Inr ''1024.00B''"
    by simp
next
  from human_readable_size_magnitude [of exact_floats NaN "IntN 2" 0]
  have "(0::int) \<le> 1024 \<longrightarrow>
      human_readable_size exact_floats (IntN 0) (IntN 2) =
        formatted exact_floats (IntN 2) (IntN 0) ''B''"
    by blast
  moreover have "formatted exact_floats (IntN 2) (IntN 0) ''B'' = Inr ''0.00B''"
    by code_simp
  ultimately show "human_readable_size exact_floats (IntN 0) (IntN 2) = Inr ''0.00B''"
    by simp
next
  let ?y = "Finite 2048"
  let ?gt = "\<lambda>j. float_gt_1024 exact_floats ((float_div_1024 exact_floats ^^ j) ?y)"
  have conv: "float_of_int exact_floats 2048 = Inr ?y" by code_simp
  from human_readable_size_magnitude [of exact_floats NaN "IntN 2" 2048]
  have "(1024::int) < 2048 \<longrightarrow>
      (case float_of_int exact_floats 2048 of
         Inl e \<Rightarrow> human_readable_size exact_floats (IntN 2048) (IntN 2) = Inl e
       | Inr y \<Rightarrow>
           (\<exists>k\<le>4. 1 \<le> k \<and>
              human_readable_size exact_floats (IntN 2048) (IntN 2) =
                formatted exact_floats (IntN 2)
                  (FloatN ((float_div_1024 exact_floats ^^ k) y)) (suffixes ! k) \<and>
              (\<forall>j<k. 1 \<le> j \<longrightarrow>
                 float_gt_1024 exact_floats ((float_div_1024 exact_floats ^^ j) y)) \<and>
              (k < 4 \<longrightarrow>
                 \<not> float_gt_1024 exact_floats ((float_div_1024 exact_floats ^^ k) y))))"
    by blast
  with conv obtain k where k: "k \<le> 4" "1 \<le> k"
    "human_readable_size exact_floats (IntN 2048) (IntN 2) =
        formatted exact_floats (IntN 2) (FloatN ((float_div_1024 exact_floats ^^ k) ?y))
          (suffixes ! k)"
    "\<forall>j<k. 1 \<le> j \<longrightarrow> ?gt j"
    by auto
  have g1: "\<not> ?gt 1" by code_simp
  have "\<not> 1 < k"
  proof
    assume "1 < k"
    with k(4) have "?gt 1" by auto
    with g1 show False ..
  qed
  with k(2) have "k = 1" by arith
  moreover have "formatted exact_floats (IntN 2)
      (FloatN ((float_div_1024 exact_floats ^^ 1) ?y)) (suffixes ! 1) = Inr ''2.00KB''"
    by code_simp
  ultimately show "human_readable_size exact_floats (IntN 2048) (IntN 2) = Inr ''2.00KB''"
    using k(3) by simp
qed

section \<open>Sequencing, loops and exceptions\<close>

lemma py_bind_raises:
  "py_bind m f w = Inl x \<longleftrightarrow> call_raises m w x (\<lambda>a w'. f a w' = Inl x)"
  by (simp add: py_bind_def call_raises_def split: sum.splits prod.splits)

text \<open>
  A loop raises exactly when one of its iterations does, all the iterations before it
  having returned.
\<close>

lemma for_loop_raises:
  "for_loop body xs s w = Inl x \<longleftrightarrow>
     (\<exists>pre c post s1 w1. xs = pre @ c # post \<and> for_loop body pre s w = Inr (s1, w1) \<and>
        body c s1 w1 = Inl x)"
proof (induction xs arbitrary: s w)
  case Nil
  show ?case by (simp add: py_return_def)
next
  case (Cons a xs)
  show ?case
  proof (cases "body a s w")
    case (Inl y)
    have "for_loop body (a # xs) s w = Inl x \<longleftrightarrow> y = x"
      using Inl by (simp add: py_bind_def)
    moreover have "(\<exists>pre c post s1 w1. a # xs = pre @ c # post \<and>
        for_loop body pre s w = Inr (s1, w1) \<and> body c s1 w1 = Inl x) \<longleftrightarrow> y = x"
    proof
      assume "\<exists>pre c post s1 w1. a # xs = pre @ c # post \<and>
        for_loop body pre s w = Inr (s1, w1) \<and> body c s1 w1 = Inl x"
      then obtain pre c post s1 w1 where h: "a # xs = pre @ c # post"
        "for_loop body pre s w = Inr (s1, w1)" "body c s1 w1 = Inl x" by blast
      show "y = x"
      proof (cases pre)
        case Nil
        with h Inl show ?thesis by (simp add: py_return_def)
      next
        case (Cons b pre')
        with h Inl show ?thesis by (simp add: py_bind_def)
      qed
    next
      assume "y = x"
      with Inl have "a # xs = [] @ a # xs \<and> for_loop body [] s w = Inr (s, w) \<and> body a s w = Inl x"
        by (simp add: py_return_def)
      then show "\<exists>pre c post s1 w1. a # xs = pre @ c # post \<and>
        for_loop body pre s w = Inr (s1, w1) \<and> body c s1 w1 = Inl x" by blast
    qed
    ultimately show ?thesis by simp
  next
    case (Inr r)
    obtain s' w' where r: "r = (s', w')" by (cases r)
    have "(\<exists>pre c post s1 w1. a # xs = pre @ c # post \<and>
        for_loop body pre s w = Inr (s1, w1) \<and> body c s1 w1 = Inl x) \<longleftrightarrow>
      (\<exists>pre c post s1 w1. xs = pre @ c # post \<and>
        for_loop body pre s' w' = Inr (s1, w1) \<and> body c s1 w1 = Inl x)"
    proof
      assume "\<exists>pre c post s1 w1. a # xs = pre @ c # post \<and>
        for_loop body pre s w = Inr (s1, w1) \<and> body c s1 w1 = Inl x"
      then obtain pre c post s1 w1 where h: "a # xs = pre @ c # post"
        "for_loop body pre s w = Inr (s1, w1)" "body c s1 w1 = Inl x" by blast
      show "\<exists>pre c post s1 w1. xs = pre @ c # post \<and>
        for_loop body pre s' w' = Inr (s1, w1) \<and> body c s1 w1 = Inl x"
      proof (cases pre)
        case Nil
        with h Inr show ?thesis by (simp add: py_return_def)
      next
        case (Cons b pre')
        with h have "b = a" "xs = pre' @ c # post" by simp_all
        moreover from h(2) Cons \<open>b = a\<close> Inr r have "for_loop body pre' s' w' = Inr (s1, w1)"
          by (simp add: py_bind_def)
        ultimately show ?thesis using h(3) by blast
      qed
    next
      assume "\<exists>pre c post s1 w1. xs = pre @ c # post \<and>
        for_loop body pre s' w' = Inr (s1, w1) \<and> body c s1 w1 = Inl x"
      then obtain pre c post s1 w1 where h: "xs = pre @ c # post"
        "for_loop body pre s' w' = Inr (s1, w1)" "body c s1 w1 = Inl x" by blast
      with Inr r have "a # xs = (a # pre) @ c # post \<and>
        for_loop body (a # pre) s w = Inr (s1, w1) \<and> body c s1 w1 = Inl x"
        by (simp add: py_bind_def)
      then show "\<exists>pre c post s1 w1. a # xs = pre @ c # post \<and>
        for_loop body pre s w = Inr (s1, w1) \<and> body c s1 w1 = Inl x" by blast
    qed
    moreover have "for_loop body (a # xs) s w = Inl x \<longleftrightarrow> for_loop body xs s' w' = Inl x"
      using Inr r by (simp add: py_bind_def)
    ultimately show ?thesis using Cons [of s' w'] by blast
  qed
qed

text \<open>A loop whose body adds one to a count adds the number of its iterations.\<close>

lemma for_loop_count:
  assumes "for_loop body xs s w = Inr (s', w')"
    and "\<And>c s w s' w'. body c s w = Inr (s', w') \<Longrightarrow> f s' = Suc (f s)"
  shows "f s' = f s + length xs"
  using assms(1)
proof (induction xs arbitrary: s w)
  case Nil
  then show ?case by (simp add: py_return_def)
next
  case (Cons a xs)
  from Cons.prems obtain s1 w1 where b: "body a s w = Inr (s1, w1)"
    and r: "for_loop body xs s1 w1 = Inr (s', w')"
    by (auto simp: py_bind_def split: sum.splits)
  from Cons.IH [OF r] assms(2) [OF b] show ?case by simp
qed

lemma length_py_range:
  "py_range start stop step = Inr counts \<Longrightarrow> length counts = range_len start stop step"
  by (auto simp: py_range_def split: if_splits)

section \<open>The benchmark functions\<close>

lemma sum_iteration_lengths:
  "sum_iteration L g count speeds w = Inr (speeds', w') \<Longrightarrow>
   length (fst speeds') = Suc (length (fst speeds)) \<and>
   length (snd speeds') = Suc (length (snd speeds))"
  by (cases speeds)
    (auto simp: sum_iteration_def py_bind_def py_return_def Let_def split: sum.splits)

lemma train_iteration_lengths:
  "train_iteration L g count speeds w = Inr (speeds', w') \<Longrightarrow>
   length (fst speeds') = Suc (length (fst speeds)) \<and>
   length (snd speeds') = Suc (length (snd speeds))"
  by (cases speeds)
    (auto simp: train_iteration_def py_bind_def py_return_def Let_def split: sum.splits)

text \<open>
  \<^verbatim>\<open>measure_sum_speed\<close>, when it returns, returns two lists of
  \<^verbatim>\<open>len(range(CHUNK_SIZE, len(df), CHUNK_SIZE))\<close> timings each.
\<close>

lemma measure_sum_speed_lengths:
  assumes "measure_sum_speed L g w = Inr ((dask_speed, pandas_speed), w')"
  shows "\<exists>len_df w1. df_len L (df g) w = Inr (len_df, w1) \<and>
           length dask_speed = range_len (CHUNK_SIZE g) len_df (CHUNK_SIZE g) \<and>
           length pandas_speed = range_len (CHUNK_SIZE g) len_df (CHUNK_SIZE g)"
proof -
  from assms obtain len_df w1 counts where
    n: "df_len L (df g) w = Inr (len_df, w1)" and
    c: "py_range (CHUNK_SIZE g) len_df (CHUNK_SIZE g) = Inr counts" and
    l: "for_loop (sum_iteration L g) counts ([], []) w1 = Inr ((dask_speed, pandas_speed), w')"
    by (auto simp: measure_sum_speed_def py_bind_def split: sum.splits)
  have "length (fst (dask_speed, pandas_speed)) = length (fst ([], [])) + length counts"
    using for_loop_count [where f = "\<lambda>s. length (fst s)", OF l] sum_iteration_lengths [of L g]
    by simp
  moreover have "length (snd (dask_speed, pandas_speed)) = length (snd ([], [])) + length counts"
    using for_loop_count [where f = "\<lambda>s. length (snd s)", OF l] sum_iteration_lengths [of L g]
    by simp
  ultimately show ?thesis using n length_py_range [OF c] by simp
qed

text \<open>
  \<^verbatim>\<open>measure_train_speed\<close>, when it returns, returns two lists of
  \<^verbatim>\<open>len(range(100000, len(df), 100000))\<close> timings each, whatever \<^verbatim>\<open>CHUNK_SIZE\<close> is.
\<close>

lemma measure_train_speed_lengths:
  assumes "measure_train_speed L g w = Inr ((dask_speed, pandas_speed), w')"
  shows "\<exists>len_df w1. df_len L (df g) w = Inr (len_df, w1) \<and>
           length dask_speed = range_len 100000 len_df 100000 \<and>
           length pandas_speed = range_len 100000 len_df 100000"
proof -
  from assms obtain len_df w1 counts where
    n: "df_len L (df g) w = Inr (len_df, w1)" and
    c: "py_range 100000 len_df 100000 = Inr counts" and
    l: "for_loop (train_iteration L g) counts ([], []) w1 = Inr ((dask_speed, pandas_speed), w')"
    by (auto simp: measure_train_speed_def py_bind_def split: sum.splits)
  have "length (fst (dask_speed, pandas_speed)) = length (fst ([], [])) + length counts"
    using for_loop_count [where f = "\<lambda>s. length (fst s)", OF l] train_iteration_lengths [of L g]
    by simp
  moreover have "length (snd (dask_speed, pandas_speed)) = length (snd ([], [])) + length counts"
    using for_loop_count [where f = "\<lambda>s. length (snd s)", OF l] train_iteration_lengths [of L g]
    by simp
  ultimately show ?thesis using n length_py_range [OF c] by simp
qed

text \<open>
  C10. \<^verbatim>\<open>measure_sum_speed\<close> and \<^verbatim>\<open>measure_train_speed\<close> each return two lists of
  \<^verbatim>\<open>len(range(CHUNK_SIZE, len(df), CHUNK_SIZE))\<close> timings. The code of
  \<^verbatim>\<open>measure_train_speed\<close> does not: its loop runs over \<^verbatim>\<open>range(100000, len_df, 100000)\<close>,
  so its lists have that length whatever \<^verbatim>\<open>CHUNK_SIZE\<close> is. With 250000 rows and
  \<^verbatim>\<open>CHUNK_SIZE = 50000\<close> it returns two timings per list, where
  \<^verbatim>\<open>range(CHUNK_SIZE, len(df), CHUNK_SIZE)\<close> has four elements.
\<close>

theorem measure_train_speed_fixed_step:
  "(case measure_train_speed L g w of
      Inl x \<Rightarrow> True
    | Inr ((dask_speed, pandas_speed), w') \<Rightarrow>
        (case df_len L (df g) w of
           Inl x \<Rightarrow> False
         | Inr (len_df, w1) \<Rightarrow>
             length dask_speed = range_len 100000 len_df 100000 \<and>
             length pandas_speed = range_len 100000 len_df 100000)) \<and>
   measure_train_speed test_library (notebook_globals 250000 50000) 0 =
     Inr (([2, 2], [1, 1]), 6) \<and>
   py_range 50000 250000 50000 = Inr [50000, 100000, 150000, 200000] \<and>
   measure_sum_speed test_library (notebook_globals 250000 50000) 0 =
     Inr (([2, 2, 2, 2], [1, 1, 1, 1]), 12)"
proof -
  have "case measure_train_speed L g w of
      Inl x \<Rightarrow> True
    | Inr ((dask_speed, pandas_speed), w') \<Rightarrow>
        (case df_len L (df g) w of
           Inl x \<Rightarrow> False
         | Inr (len_df, w1) \<Rightarrow>
             length dask_speed = range_len 100000 len_df 100000 \<and>
             length pandas_speed = range_len 100000 len_df 100000)"
  proof (cases "measure_train_speed L g w")
    case (Inl x)
    then show ?thesis by simp
  next
    case (Inr r)
    obtain dask_speed pandas_speed w' where r: "r = ((dask_speed, pandas_speed), w')"
      by (cases r) auto
    from measure_train_speed_lengths [of L g w dask_speed pandas_speed w'] Inr r
    show ?thesis by auto
  qed
  moreover have "measure_train_speed test_library (notebook_globals 250000 50000) 0 =
     Inr (([2, 2], [1, 1]), 6)"
    by code_simp
  moreover have "py_range 50000 250000 50000 = Inr [50000, 100000, 150000, 200000]"
    by code_simp
  moreover have "measure_sum_speed test_library (notebook_globals 250000 50000) 0 =
     Inr (([2, 2, 2, 2], [1, 1, 1, 1]), 12)"
    by code_simp
  ultimately show ?thesis by blast
qed

section \<open>The training function\<close>

text \<open>
  C3. The per-group training function returns the fitted estimator. The \<^verbatim>\<open>train\<close> of the
  third notebook does; the \<^verbatim>\<open>train\<close> of \<^verbatim>\<open>dataframe.ipynb\<close> makes the same two calls and
  then falls off its end: whenever the other returns a fitted estimator it returns
  \<^verbatim>\<open>None\<close>, from the same world.
\<close>

theorem train_returns_none:
  "train L part w =
     (case train_part_000 L part w of
        Inl x \<Rightarrow> Inl x
      | Inr (est, w') \<Rightarrow> Inr (PyNone, w')) \<and>
   train test_library () 0 = Inr (PyNone, 1) \<and>
   train_part_000 test_library () 0 = Inr (PyObj True, 1)"
proof -
  have "train L part w =
     (case train_part_000 L part w of
        Inl x \<Rightarrow> Inl x
      | Inr (est, w') \<Rightarrow> Inr (PyNone, w'))"
    by (simp add: train_def train_part_000_def py_bind_def py_return_def
        split: sum.splits prod.splits)
  moreover have "train test_library () 0 = Inr (PyNone, 1)"
    by code_simp
  moreover have "train_part_000 test_library () 0 = Inr (PyObj True, 1)"
    by code_simp
  ultimately show ?thesis by blast
qed

section \<open>Exceptions\<close>

lemma train_raises:
  "train L part w = Inl x \<longleftrightarrow>
     call_raises (LinearRegression L) w x (\<lambda>est w.
     call_raises (est_fit L est part) w x (\<lambda>_ _. False))"
  by (simp add: train_def py_bind_raises py_return_def)

lemma train_part_000_raises:
  "train_part_000 L part w = Inl x \<longleftrightarrow>
     call_raises (LinearRegression L) w x (\<lambda>est w.
     call_raises (est_fit L est part) w x (\<lambda>_ _. False))"
  by (simp add: train_part_000_def py_bind_raises py_return_def)

lemma sum_iteration_raises:
  "sum_iteration L g count speeds w = Inl x \<longleftrightarrow>
     call_raises (ddf_head L (ddf g) count) w x (\<lambda>ddf_chunk w.
     call_raises (df_head L (df g) count) w x (\<lambda>df_chunk w.
     call_raises (time_time L) w x (\<lambda>_ w.
     call_raises (ddf_x_sum_compute L ddf_chunk) w x (\<lambda>_ w.
     call_raises (time_time L) w x (\<lambda>_ w.
     call_raises (time_time L) w x (\<lambda>_ w.
     call_raises (df_x_sum L df_chunk) w x (\<lambda>_ w.
     call_raises (time_time L) w x (\<lambda>_ _. False))))))))"
  by (cases speeds) (simp add: sum_iteration_def py_bind_raises py_return_def Let_def)

lemma train_iteration_raises:
  "train_iteration L g count speeds w = Inl x \<longleftrightarrow>
     call_raises (ddf_head L (ddf g) count) w x (\<lambda>ddf_chunk w.
     call_raises (df_head L (df g) count) w x (\<lambda>df_chunk w.
     call_raises (time_time L) w x (\<lambda>_ w.
     call_raises (ddf_groupby_apply_compute L (train L) ddf_chunk) w x (\<lambda>_ w.
     call_raises (time_time L) w x (\<lambda>_ w.
     call_raises (time_time L) w x (\<lambda>_ w.
     call_raises (df_groupby_apply L (train L) df_chunk) w x (\<lambda>_ w.
     call_raises (time_time L) w x (\<lambda>_ _. False))))))))"
  by (cases speeds) (simp add: train_iteration_def py_bind_raises py_return_def Let_def)

lemma measure_sum_speed_raises:
  "measure_sum_speed L g w = Inl x \<longleftrightarrow>
     call_raises (df_len L (df g)) w x (\<lambda>len_df w.
       (CHUNK_SIZE g = 0 \<and> x = ValueError) \<or>
       (\<exists>pre count post speeds w1.
          py_range (CHUNK_SIZE g) len_df (CHUNK_SIZE g) = Inr (pre @ count # post) \<and>
          for_loop (sum_iteration L g) pre ([], []) w = Inr (speeds, w1) \<and>
          sum_iteration L g count speeds w1 = Inl x))"
proof -
  have "(case py_range (CHUNK_SIZE g) len_df (CHUNK_SIZE g) of
           Inl x \<Rightarrow> Inl x
         | Inr counts \<Rightarrow> for_loop (sum_iteration L g) counts ([], []) w') = Inl x \<longleftrightarrow>
       (CHUNK_SIZE g = 0 \<and> x = ValueError) \<or>
       (\<exists>pre count post speeds w1.
          py_range (CHUNK_SIZE g) len_df (CHUNK_SIZE g) = Inr (pre @ count # post) \<and>
          for_loop (sum_iteration L g) pre ([], []) w' = Inr (speeds, w1) \<and>
          sum_iteration L g count speeds w1 = Inl x)" for len_df w'
  proof (cases "CHUNK_SIZE g = 0")
    case True
    then show ?thesis by (auto simp: py_range_def)
  next
    case False
    then obtain counts where
      c: "py_range (CHUNK_SIZE g) len_df (CHUNK_SIZE g) = Inr counts"
      by (simp add: py_range_def)
    with False show ?thesis
      by (simp add: for_loop_raises [of "sum_iteration L g" counts])
  qed
  then show ?thesis
    by (simp add: measure_sum_speed_def py_bind_raises)
qed

lemma measure_train_speed_raises:
  "measure_train_speed L g w = Inl x \<longleftrightarrow>
     call_raises (df_len L (df g)) w x (\<lambda>len_df w.
       \<exists>pre count post speeds w1.
          py_range 100000 len_df 100000 = Inr (pre @ count # post) \<and>
          for_loop (train_iteration L g) pre ([], []) w = Inr (speeds, w1) \<and>
          train_iteration L g count speeds w1 = Inl x)"
proof -
  have "(case py_range 100000 len_df 100000 of
           Inl x \<Rightarrow> Inl x
         | Inr counts \<Rightarrow> for_loop (train_iteration L g) counts ([], []) w') = Inl x \<longleftrightarrow>
       (\<exists>pre count post speeds w1.
          py_range 100000 len_df 100000 = Inr (pre @ count # post) \<and>
          for_loop (train_iteration L g) pre ([], []) w' = Inr (speeds, w1) \<and>
          train_iteration L g count speeds w1 = Inl x)" for len_df w'
  proof -
    obtain counts where c: "py_range 100000 len_df 100000 = Inr counts"
      by (simp add: py_range_def)
    then show ?thesis
      by (simp add: for_loop_raises [of "train_iteration L g" counts])
  qed
  then show ?thesis
    by (simp add: measure_train_speed_def py_bind_raises)
qed

text \<open>
  \<^verbatim>\<open>human_readable_size\<close> raises exactly when the loop's division raised or, the loop
  having ended, the formatting raises; and the loop's division raises only in converting
  an \<^verbatim>\<open>int\<close> size above 1024 to a float.
\<close>

lemma human_readable_size_raises:
  "human_readable_size F sz precision = Inl x \<longleftrightarrow>
     (case hrs_loop F sz 0 of
        (Some e, sz', suffixIndex) \<Rightarrow> e = x
      | (None, sz', suffixIndex) \<Rightarrow> format_f F precision sz' = Inl x)"
  by (cases "hrs_loop F sz 0")
    (simp add: human_readable_size_unfold formatted_def split: option.splits sum.splits)

lemma hrs_loop_raised:
  "fst (hrs_loop F sz 0) =
     (case sz of
        IntN n \<Rightarrow>
          (if 1024 < n then (case float_of_int F n of Inl e \<Rightarrow> Some e | Inr y \<Rightarrow> None)
           else None)
      | FloatN y \<Rightarrow> None)"
proof (cases sz)
  case (FloatN y)
  obtain k where "hrs_loop F (FloatN y) 0 = (None, FloatN ((float_div_1024 F ^^ k) y), int k)"
    using hrs_loop_float [of 0 F y] by auto
  with FloatN show ?thesis by simp
next
  case (IntN n)
  show ?thesis
  proof (cases "1024 < n")
    case False
    then have "hrs_loop F (IntN n) 0 = (None, IntN n, 0)"
      by (simp add: hrs_loop_stop num_gt_1024_def)
    with IntN False show ?thesis by simp
  next
    case True
    show ?thesis
    proof (cases "float_of_int F n")
      case (Inl e)
      then have "hrs_loop F (IntN n) 0 = (Some e, IntN n, 1)"
        using True hrs_loop_raise [of F "IntN n" 0 e]
        by (simp add: num_gt_1024_def num_div_1024_def)
      with IntN True Inl show ?thesis by simp
    next
      case (Inr y)
      then have "hrs_loop F (IntN n) 0 = hrs_loop F (FloatN (float_div_1024 F y)) 1"
        using True hrs_loop_step [of F "IntN n" 0 "float_div_1024 F y"]
        by (simp add: num_gt_1024_def num_div_1024_def)
      moreover obtain k where "hrs_loop F (FloatN (float_div_1024 F y)) 1 =
          (None, FloatN ((float_div_1024 F ^^ k) (float_div_1024 F y)), 1 + int k)"
        using hrs_loop_float [of 1 F "float_div_1024 F y"] by auto
      ultimately show ?thesis using IntN True Inr by simp
    qed
  qed
qed

text \<open>
  C6. No error handling is authored: every exception a library call raises reaches the
  caller unchanged, in every authored function and cell. This fails in the two cells of
  the third notebook that run a \<^verbatim>\<open>.compute()\<close> under \<^verbatim>\<open>%time\<close>: when the call raises
  (here a \<^verbatim>\<open>MemoryError\<close>), the magic catches the exception, shows the traceback and the
  cell returns.
\<close>

theorem time_magic_counterexample:
  "out_of_memory_compute 0 = Inl (Raised ''MemoryError'') \<and>
   time_magic test_showtraceback out_of_memory_compute 0 = Inr (PyNone, 1)"
  by code_simp

text \<open>
  C6, as amended. No cell holds a \<^verbatim>\<open>try\<close>, a \<^verbatim>\<open>with\<close> or a \<^verbatim>\<open>raise\<close>; the only
  statements that keep an exception from the caller are the two \<^verbatim>\<open>%time\<close> lines of the
  third notebook, which never raise. Every authored function, and the cell that sets the
  warning filter, raises exactly when a call it makes into a library or a built-in
  raises, with that call's exception:
  \<^item> \<^verbatim>\<open>human_readable_size\<close> raises \<open>x\<close> exactly when the conversion of an \<^verbatim>\<open>int\<close> size to
    a float in the loop raises \<open>x\<close> or, the loop having ended, the formatting raises \<open>x\<close>;
  \<^item> both \<^verbatim>\<open>train\<close> functions and one iteration of either benchmark loop raise \<open>x\<close>
    exactly when, in the order of the source, the first of their library calls that does
    not return raises \<open>x\<close>;
  \<^item> \<^verbatim>\<open>measure_sum_speed\<close> and \<^verbatim>\<open>measure_train_speed\<close> raise \<open>x\<close> exactly when
    \<^verbatim>\<open>len(df)\<close> raises it, or \<^verbatim>\<open>range\<close> does (a zero step), or an iteration raises it
    after all earlier ones returned;
  \<^item> the cell that sets the warning filter and runs the second benchmark raises \<open>x\<close>
    exactly when \<^verbatim>\<open>warnings.simplefilter\<close> or then \<^verbatim>\<open>measure_train_speed\<close> does.
  On a cluster whose sum runs out of memory, \<^verbatim>\<open>measure_sum_speed\<close> raises that
  \<^verbatim>\<open>MemoryError\<close>.
\<close>

theorem exceptions_propagate_amended:
  "filter alters_propagation (statements repository) =
     [Magic ''%time'' (Some (Call (Attribute one_day ''compute'') [] [])),
      Magic ''%time''
        (Some (Call (Attribute
           (Subscript (Attribute (Name ''df'') ''loc'') (Str ''Alice'')) ''compute'') [] []))] \<and>
   time_magic showtraceback expression w \<noteq> Inl x \<and>
   (human_readable_size F sz precision = Inl x \<longleftrightarrow>
      (case hrs_loop F sz 0 of
         (Some e, sz', suffixIndex) \<Rightarrow> e = x
       | (None, sz', suffixIndex) \<Rightarrow> format_f F precision sz' = Inl x)) \<and>
   fst (hrs_loop F sz 0) =
     (case sz of
        IntN n \<Rightarrow>
          (if 1024 < n then (case float_of_int F n of Inl e \<Rightarrow> Some e | Inr y \<Rightarrow> None)
           else None)
      | FloatN y \<Rightarrow> None) \<and>
   (train L part w = Inl x \<longleftrightarrow>
      call_raises (LinearRegression L) w x (\<lambda>est w.
      call_raises (est_fit L est part) w x (\<lambda>_ _. False))) \<and>
   (train_part_000 L part w = Inl x \<longleftrightarrow>
      call_raises (LinearRegression L) w x (\<lambda>est w.
      call_raises (est_fit L est part) w x (\<lambda>_ _. False))) \<and>
   (sum_iteration L g count speeds w = Inl x \<longleftrightarrow>
      call_raises (ddf_head L (ddf g) count) w x (\<lambda>ddf_chunk w.
      call_raises (df_head L (df g) count) w x (\<lambda>df_chunk w.
      call_raises (time_time L) w x (\<lambda>_ w.
      call_raises (ddf_x_sum_compute L ddf_chunk) w x (\<lambda>_ w.
      call_raises (time_time L) w x (\<lambda>_ w.
      call_raises (time_time L) w x (\<lambda>_ w.
      call_raises (df_x_sum L df_chunk) w x (\<lambda>_ w.
      call_raises (time_time L) w x (\<lambda>_ _. False))))))))) \<and>
   (train_iteration L g count speeds w = Inl x \<longleftrightarrow>
      call_raises (ddf_head L (ddf g) count) w x (\<lambda>ddf_chunk w.
      call_raises (df_head L (df g) count) w x (\<lambda>df_chunk w.
      call_raises (time_time L) w x (\<lambda>_ w.
      call_raises (ddf_groupby_apply_compute L (train L) ddf_chunk) w x (\<lambda>_ w.
      call_raises (time_time L) w x (\<lambda>_ w.
      call_raises (time_time L) w x (\<lambda>_ w.
      call_raises (df_groupby_apply L (train L) df_chunk) w x (\<lambda>_ w.
      call_raises (time_time L) w x (\<lambda>_ _. False))))))))) \<and>
   (measure_sum_speed L g w = Inl x \<longleftrightarrow>
      call_raises (df_len L (df g)) w x (\<lambda>len_df w.
        (CHUNK_SIZE g = 0 \<and> x = ValueError) \<or>
        (\<exists>pre count post speeds w1.
           py_range (CHUNK_SIZE g) len_df (CHUNK_SIZE g) = Inr (pre @ count # post) \<and>
           for_loop (sum_iteration L g) pre ([], []) w = Inr (speeds, w1) \<and>
           sum_iteration L g count speeds w1 = Inl x))) \<and>
   (measure_train_speed L g w = Inl x \<longleftrightarrow>
      call_raises (df_len L (df g)) w x (\<lambda>len_df w.
        \<exists>pre count post speeds w1.
           py_range 100000 len_df 100000 = Inr (pre @ count # post) \<and>
           for_loop (train_iteration L g) pre ([], []) w = Inr (speeds, w1) \<and>
           train_iteration L g count speeds w1 = Inl x)) \<and>
   (train_benchmark_cell L g w = Inl x \<longleftrightarrow>
      call_raises (warnings_simplefilter L) w x (\<lambda>_ w. measure_train_speed L g w = Inl x)) \<and>
   measure_sum_speed small_cluster (notebook_globals 250000 100000) 0 =
     Inl (Raised ''MemoryError'')"
proof -
  have "filter alters_propagation (statements repository) =
     [Magic ''%time'' (Some (Call (Attribute one_day ''compute'') [] [])),
      Magic ''%time''
        (Some (Call (Attribute
           (Subscript (Attribute (Name ''df'') ''loc'') (Str ''Alice'')) ''compute'') [] []))]"
    by code_simp
  moreover have "time_magic showtraceback expression w \<noteq> Inl x"
    by (simp add: time_magic_def split: sum.splits prod.splits)
  moreover have "train_benchmark_cell L g w = Inl x \<longleftrightarrow>
      call_raises (warnings_simplefilter L) w x (\<lambda>_ w. measure_train_speed L g w = Inl x)"
    by (simp add: train_benchmark_cell_def py_bind_raises)
  moreover have "measure_sum_speed small_cluster (notebook_globals 250000 100000) 0 =
     Inl (Raised ''MemoryError'')"
    by code_simp
  ultimately show ?thesis
    using human_readable_size_raises [of F sz precision x] hrs_loop_raised [of F sz]
      train_raises [of L part w x] train_part_000_raises [of L part w x]
      sum_iteration_raises [of L g count speeds w x]
      train_iteration_raises [of L g count speeds w x]
      measure_sum_speed_raises [of L g w x] measure_train_speed_raises [of L g w x]
    by (intro conjI) assumption+
qed

section \<open>What the cells contain\<close>

text \<open>
  C1. Every authored code cell is pure usage glue, with no loop or branch of its own.
  This fails: the cell of \<^verbatim>\<open>human_readable_size\<close> defines a function around a
  \<^verbatim>\<open>while\<close> loop.
\<close>

theorem glue_cell_counterexample:
  "\<not> glue_cell dataframe_ipynb human_readable_size_cell"
  by code_simp

text \<open>
  C1, as amended. Of the 45 code cells of the three notebooks, 32 are usage glue: each
  is made of imports, IPython magics, assignments and expression statements only, and
  reads no function the notebook defines. Three cells hold a loop, and there is no other
  loop and no branch: they define \<^verbatim>\<open>human_readable_size\<close> (one \<^verbatim>\<open>while\<close>),
  \<^verbatim>\<open>measure_sum_speed\<close> and \<^verbatim>\<open>measure_train_speed\<close> (one \<^verbatim>\<open>for\<close> each). Three cells
  define functions without a loop or branch (\<^verbatim>\<open>inc\<close> and \<^verbatim>\<open>add\<close>; \<^verbatim>\<open>train\<close>, once in
  each dataframe notebook). The other seven are straight-line cells that call or pass a
  function the notebook defines.
\<close>

theorem glue_cells_amended:
  "length repository = 45 \<and>
   map (cell_kind_of dataframe_ipynb) dataframe_ipynb =
     [Glue, Glue, Glue, Glue, HasControlFlow, UsesOwnFunctions, Glue, UsesOwnFunctions, Glue,
      Glue, HasControlFlow, UsesOwnFunctions, Glue, DefinesFunctions, HasControlFlow,
      UsesOwnFunctions, Glue] \<and>
   map (cell_kind_of dag_ipynb) dag_ipynb =
     [Glue, DefinesFunctions, UsesOwnFunctions, UsesOwnFunctions, Glue, Glue, Glue, Glue, Glue,
      Glue] \<and>
   map (cell_kind_of part_000) part_000 =
     [Glue, Glue, Glue, Glue, Glue, Glue, Glue, Glue, Glue, Glue, Glue, Glue, Glue, Glue, Glue,
      Glue, DefinesFunctions, UsesOwnFunctions] \<and>
   map (glue_cell dataframe_ipynb) dataframe_ipynb =
     map (\<lambda>c. cell_kind_of dataframe_ipynb c = Glue) dataframe_ipynb \<and>
   map (glue_cell dag_ipynb) dag_ipynb = map (\<lambda>c. cell_kind_of dag_ipynb c = Glue) dag_ipynb \<and>
   map (glue_cell part_000) part_000 = map (\<lambda>c. cell_kind_of part_000 c = Glue) part_000 \<and>
   filter (\<lambda>c. cell_kind_of dataframe_ipynb c = HasControlFlow) dataframe_ipynb =
     [human_readable_size_cell, measure_sum_speed_cell, measure_train_speed_cell] \<and>
   function_loops repository =
     [(''human_readable_size'', [''while'']), (''measure_sum_speed'', [''for'']),
      (''train'', []), (''measure_train_speed'', [''for'']), (''inc'', []), (''add'', []),
      (''train'', [])] \<and>
   map loop_keyword (filter is_control_flow (statements repository)) =
     [''while'', ''for'', ''for'']"
  by code_simp

text \<open>
  C2. Every construction of the client supplies worker count, threads per worker and
  memory limit. This fails: the third notebook's \<^verbatim>\<open>Client(...)\<close> has no
  \<^verbatim>\<open>memory_limit\<close>.
\<close>

theorem client_memory_limit_counterexample:
  "client_keywords part_000 = [[''processes'', ''threads_per_worker'', ''n_workers'']] \<and>
   \<not> supplies_all_three [''processes'', ''threads_per_worker'', ''n_workers'']"
  by code_simp

text \<open>
  C2, as amended. Each notebook constructs the client once, by keywords only. All three
  constructions supply the worker count and the threads per worker; those of
  \<^verbatim>\<open>dataframe.ipynb\<close> and \<^verbatim>\<open>dag.ipynb\<close> supply the memory limit as well, the third
  notebook's supplies \<^verbatim>\<open>processes=False\<close> and no memory limit.
\<close>

theorem client_constructions_amended:
  "client_constructions dataframe_ipynb =
     [([], [(''n_workers'', Num 2), (''threads_per_worker'', Num 2),
            (''memory_limit'', Str ''2GB'')])] \<and>
   client_constructions dag_ipynb =
     [([], [(''n_workers'', Num 2), (''threads_per_worker'', Num 2),
            (''memory_limit'', Str ''2GB'')])] \<and>
   client_constructions part_000 =
     [([], [(''processes'', NameConstant False), (''threads_per_worker'', Num 4),
            (''n_workers'', Num 1)])] \<and>
   map supplies_all_three (client_keywords repository) = [True, True, False]"
  by code_simp

text \<open>
  C5. Every generation of the dataset passes start, end, frequency, partition frequency
  and column dtypes. This fails: \<^verbatim>\<open>dataframe.ipynb\<close> calls
  \<^verbatim>\<open>dask.datasets.timeseries()\<close> with no argument at all.
\<close>

theorem dataset_defaults_counterexample:
  "dataset_generations dataframe_ipynb = [([], [])]"
  by code_simp

text \<open>
  C5, as amended. The third notebook generates its dataset with
  \<^verbatim>\<open>dd.demo.make_timeseries\<close>, passing start and end as the two positional arguments and
  \<^verbatim>\<open>freq\<close>, \<^verbatim>\<open>partition_freq\<close> and \<^verbatim>\<open>dtypes\<close> by keyword; \<^verbatim>\<open>dataframe.ipynb\<close> generates
  its dataset with \<^verbatim>\<open>dask.datasets.timeseries()\<close> and passes nothing, leaving every
  parameter at the library's default; \<^verbatim>\<open>dag.ipynb\<close> generates none.
\<close>

theorem dataset_generations_amended:
  "dataset_generations part_000 =
     [([Str ''2000-01-01'', Str ''2000-12-31''], [''freq'', ''partition_freq'', ''dtypes''])] \<and>
   dataset_generations dataframe_ipynb = [([], [])] \<and>
   dataset_generations dag_ipynb = []"
  by code_simp

text \<open>
  C7. The notebooks pass only the worker count, the threads per worker and the memory
  limit to the client, and author no scheduling, locking or cancellation. The first part
  fails: the third notebook also passes \<^verbatim>\<open>processes\<close>, the choice between threads and
  processes.
\<close>

theorem client_processes_counterexample:
  "''processes'' \<in> set (concat (client_keywords part_000)) \<and>
   ''processes'' \<notin> set [''n_workers'', ''threads_per_worker'', ''memory_limit'']"
  by code_simp

text \<open>
  C7, as amended. The notebooks pass only literal configuration values to the client:
  the worker count, the threads per worker and either the memory limit or the
  \<^verbatim>\<open>processes\<close> flag. No authored code schedules, locks or cancels: the client object is
  only constructed and displayed (no method of it is ever called), \<^verbatim>\<open>progress\<close> is
  imported and never used, no module of threads, locks or asynchronous tasks is
  imported, and no cell holds a \<^verbatim>\<open>with\<close> or \<^verbatim>\<open>try\<close> block.
\<close>

theorem no_coordination_amended:
  "map (\<lambda>c. (fst c, map (\<lambda>kw. (fst kw, is_literal (snd kw))) (snd c)))
       (client_constructions repository) =
     [([], [(''n_workers'', True), (''threads_per_worker'', True), (''memory_limit'', True)]),
      ([], [(''n_workers'', True), (''threads_per_worker'', True), (''memory_limit'', True)]),
      ([], [(''processes'', True), (''threads_per_worker'', True), (''n_workers'', True)])] \<and>
   mentions ''client'' repository = tl client_cell @ tl client_cell @ tl client_cell_part_000 \<and>
   mentions ''progress'' repository = [ImportFrom ''dask.distributed'' [''Client'', ''progress'']] \<and>
   imports_of repository =
     [''time'', ''sys'', ''pandas'', ''warnings'', ''matplotlib.pyplot'', ''numpy'', ''dask'',
      ''dask.array'', ''dask.distributed'', ''dask.dataframe'', ''sklearn.linear_model''] \<and>
   filter handles_errors (statements repository) = []"
  by code_simp

section \<open>Module-level state\<close>

text \<open>
  C4. No authored function reads or writes a module-level variable: called with the same
  arguments under two module environments it returns the same result. This fails:
  \<^verbatim>\<open>measure_sum_speed()\<close>, on the same library, the same world and the same dataframe,
  returns two timings per list when \<^verbatim>\<open>CHUNK_SIZE\<close> is 100000 and four when it is 50000.
\<close>

theorem module_state_counterexample:
  "measure_sum_speed test_library (notebook_globals 250000 100000) 0 =
     Inr (([2, 2], [1, 1]), 6) \<and>
   measure_sum_speed test_library (notebook_globals 250000 50000) 0 =
     Inr (([2, 2, 2, 2], [1, 1, 1, 1]), 12) \<and>
   measure_sum_speed test_library (notebook_globals 250000 100000) 0 \<noteq>
     measure_sum_speed test_library (notebook_globals 250000 50000) 0"
  by code_simp

text \<open>
  C4, as amended. No authored function writes a module-level variable (none declares a
  name \<^verbatim>\<open>global\<close>). \<^verbatim>\<open>human_readable_size\<close>, \<^verbatim>\<open>inc\<close> and \<^verbatim>\<open>add\<close> read none, so their
  result depends on their parameters only. Both \<^verbatim>\<open>train\<close> functions read the imported
  \<^verbatim>\<open>LinearRegression\<close> and nothing else. \<^verbatim>\<open>measure_sum_speed\<close> reads the module-level
  \<^verbatim>\<open>CHUNK_SIZE\<close>, \<^verbatim>\<open>ddf\<close>, \<^verbatim>\<open>df\<close> and \<^verbatim>\<open>time\<close>, and \<^verbatim>\<open>measure_train_speed\<close> reads
  \<^verbatim>\<open>ddf\<close>, \<^verbatim>\<open>df\<close>, \<^verbatim>\<open>train\<close> and \<^verbatim>\<open>time\<close>: their results depend on the module
  environment.
\<close>

theorem module_state_amended:
  "module_writes repository =
     [(''human_readable_size'', []), (''measure_sum_speed'', []), (''train'', []),
      (''measure_train_speed'', []), (''inc'', []), (''add'', []), (''train'', [])] \<and>
   module_reads dataframe_ipynb =
     [(''human_readable_size'', []),
      (''measure_sum_speed'', [''CHUNK_SIZE'', ''ddf'', ''df'', ''time'']),
      (''train'', [''LinearRegression'']),
      (''measure_train_speed'', [''ddf'', ''df'', ''train'', ''time''])] \<and>
   module_reads dag_ipynb = [(''inc'', []), (''add'', [])] \<and>
   module_reads part_000 = [(''train'', [''LinearRegression''])]"
  by code_simp

end
